theory Spec2Isabelle
  imports Complex_Main
begin

section \<open>The ML predictive monitor of \<^verbatim>\<open>ml_monitor.py\<close>\<close>

text \<open>
  The monitor is the class \<^verbatim>\<open>MLPredictiveMonitor\<close>. Its attributes become a record
  that every method takes and returns; an exception becomes the left summand of the
  result, next to the state the method had reached when it was raised (Python does not
  roll back). The calls into scikit-learn, the file system and the standard library are
  parameters of the model (the record \<open>env\<close>), each of them allowed to raise.
\<close>

subsection \<open>Decoded JSON, Python errors\<close>

text \<open>
  What \<^verbatim>\<open>json.loads\<close> returns. A number is a finite real: Python's \<^verbatim>\<open>int\<close> and
  \<^verbatim>\<open>float\<close> compare by value, and the order of finite floats is the order of the reals
  (the non-standard literals NaN and Infinity are outside the model). A JSON object is
  a dict with string keys, here an association list read with \<open>map_of\<close>.
\<close>

datatype jvalue =
    JNull
  | JBool bool
  | JNum real
  | JStr string
  | JArr "jvalue list"
  | JObj "(string \<times> jvalue) list"

type_synonym reading = "(string \<times> jvalue) list"

datatype error =
    KeyError jvalue
  | TypeError
  | ValueError
  | JSONDecodeError
  | OSError
  | NotFittedError

text \<open>\<^verbatim>\<open>data[key]\<close> on a dict: the value, or KeyError.\<close>

definition subscript :: "reading \<Rightarrow> string \<Rightarrow> error + jvalue" where
  "subscript data key = (case map_of data key of None \<Rightarrow> Inl (KeyError (JStr key)) | Some v \<Rightarrow> Inr v)"

text \<open>\<^verbatim>\<open>data.get(key, default)\<close> on a dict.\<close>

definition dict_get :: "reading \<Rightarrow> string \<Rightarrow> jvalue \<Rightarrow> jvalue" where
  "dict_get data key dflt = (case map_of data key of None \<Rightarrow> dflt | Some v \<Rightarrow> v)"

text \<open>
  The operand of an ordering comparison with a number, and of the format \<^verbatim>\<open>.1f\<close>:
  numbers and booleans (\<^verbatim>\<open>True\<close> is 1) are accepted. Comparing anything else with a
  number raises TypeError.
\<close>

fun py_num :: "jvalue \<Rightarrow> error + real" where
  "py_num (JNum r) = Inr r"
| "py_num (JBool b) = Inr (if b then 1 else 0)"
| "py_num _ = Inl TypeError"

text \<open>\<^verbatim>\<open>data[key] > bound\<close> and \<^verbatim>\<open>data[key] < bound\<close>.\<close>

definition field_gt :: "reading \<Rightarrow> string \<Rightarrow> real \<Rightarrow> error + bool" where
  "field_gt data key bound =
     (case subscript data key of
        Inl e \<Rightarrow> Inl e
      | Inr v \<Rightarrow> (case py_num v of Inl e \<Rightarrow> Inl e | Inr r \<Rightarrow> Inr (r > bound)))"

definition field_lt :: "reading \<Rightarrow> string \<Rightarrow> real \<Rightarrow> error + bool" where
  "field_lt data key bound =
     (case subscript data key of
        Inl e \<Rightarrow> Inl e
      | Inr v \<Rightarrow> (case py_num v of Inl e \<Rightarrow> Inl e | Inr r \<Rightarrow> Inr (r < bound)))"

text \<open>\<^verbatim>\<open>sep.join(parts)\<close>.\<close>

fun join :: "string \<Rightarrow> string list \<Rightarrow> string" where
  "join sep [] = []"
| "join sep [x] = x"
| "join sep (x # y # ys) = x @ sep @ join sep (y # ys)"

text \<open>Python's \<^verbatim>\<open>sub in s\<close> on strings.\<close>

fun starts_with :: "string \<Rightarrow> string \<Rightarrow> bool" where
  "starts_with [] s = True"
| "starts_with (c # cs) [] = False"
| "starts_with (c # cs) (d # ds) = (c = d \<and> starts_with cs ds)"

fun contains :: "string \<Rightarrow> string \<Rightarrow> bool" where
  "contains sub [] = (sub = [])"
| "contains sub (c # cs) = (starts_with sub (c # cs) \<or> contains sub cs)"

subsection \<open>Severity and recommendation\<close>

text \<open>\<^verbatim>\<open>calculate_severity\<close>, lines 197 to 204.\<close>

definition calculate_severity :: "real \<Rightarrow> string" where
  "calculate_severity score =
     (if score < - 0.5 then ''CRITICAL''
      else if score < - 0.3 then ''WARNING''
      else ''INFO'')"

text \<open>
  \<^verbatim>\<open>get_recommendation\<close>, lines 206 to 222. The four tests run in the source's order,
  and the first lookup or comparison that raises ends the call.
\<close>

definition get_recommendation :: "reading \<Rightarrow> error + string" where
  "get_recommendation data =
     (case field_gt data ''temperature'' 80 of Inl e \<Rightarrow> Inl e | Inr hot \<Rightarrow>
     (case field_gt data ''vibration'' 4.0 of Inl e \<Rightarrow> Inl e | Inr shaking \<Rightarrow>
     (case field_gt data ''current'' 15 of Inl e \<Rightarrow> Inl e | Inr drawing \<Rightarrow>
     (case field_lt data ''rpm'' 1400 of Inl e \<Rightarrow> Inl e | Inr slow \<Rightarrow>
        (let issues0 = [];
             issues1 = (if hot then issues0 @ [''Temperature exceeds safe threshold''] else issues0);
             issues2 = (if shaking then issues1 @ [''Excessive vibration detected''] else issues1);
             issues3 = (if drawing then issues2 @ [''High current draw''] else issues2);
             issues = (if slow then issues3 @ [''RPM below optimal range''] else issues3)
         in Inr (if issues \<noteq> []
                 then ''Schedule inspection: '' @ join ''; '' issues
                 else ''Monitor closely for additional anomalies''))))))"

subsection \<open>Alerts, machine states, the monitor\<close>

record metric_values =
  temperature :: jvalue
  vibration :: jvalue
  current :: jvalue
  pressure :: jvalue
  rpm :: jvalue

record alert =
  alert_id :: string
  machine_id :: jvalue
  timestamp :: jvalue
  anomaly_score :: real
  metrics :: metric_values
  severity :: string
  recommendation :: string

text \<open>
  One entry of \<^verbatim>\<open>machine_data\<close>: the deque of readings (\<^verbatim>\<open>maxlen=50\<close>, oldest first)
  and the list of alerts.
\<close>

record machine_state =
  readings :: "reading list"
  alerts :: "alert list"

text \<open>What the monitor prints, one constructor for each print statement or block.\<close>

datatype out_line =
    TrainingBanner
  | ModelTrained nat
  | ModelSaved
  | ErrorProcessing error
  | AnomalyHeader alert
  | AnomalyDetails alert
  | NormalOperation jvalue real real real

text \<open>
  The attributes of \<^verbatim>\<open>MLPredictiveMonitor\<close> set in \<^verbatim>\<open>__init__\<close>. The fitted scaler and
  the fitted forest together are the value of \<open>model\<close>; \<open>published\<close> is what was handed
  to \<^verbatim>\<open>client.publish\<close> on the alert topic, \<open>stdout\<close> what was printed.
\<close>

record 'm monitor =
  machine_data :: "jvalue \<rightharpoonup> machine_state"
  alert_history :: "alert list"
  model :: "'m option"
  model_trained :: bool
  training_data :: "jvalue list list"
  total_readings :: nat
  anomalies_detected :: nat
  published :: "alert list"
  stdout :: "out_line list"

definition min_training_samples :: nat where
  "min_training_samples = 30"

definition init :: "'m monitor" where
  "init = \<lparr>machine_data = Map.empty, alert_history = [], model = None,
           model_trained = False, training_data = [], total_readings = 0,
           anomalies_detected = 0, published = [], stdout = []\<rparr>"

text \<open>
  The library calls the monitor makes, none of them code of this repository:
  \<^item> \<open>fit\<close>: lines 106 to 117, \<^verbatim>\<open>np.array\<close>, \<^verbatim>\<open>scaler.fit_transform\<close> and
    \<^verbatim>\<open>IsolationForest(...).fit\<close> on the training data, giving the fitted pair;
  \<^item> \<open>transform\<close>, \<open>predict\<close>, \<open>score_samples\<close>: lines 132 to 139;
  \<^item> \<open>pickle_dump\<close>: lines 126 and 127, opening the file and writing the pair;
  \<^item> \<open>mqtt_publish\<close>: lines 170 to 174, \<^verbatim>\<open>json.dumps\<close> and \<^verbatim>\<open>client.publish\<close>;
  \<^item> \<open>round4\<close>: \<^verbatim>\<open>round(float(score), 4)\<close>;
  \<^item> \<open>valid_isoformat\<close>: whether \<^verbatim>\<open>datetime.fromisoformat\<close> accepts the string.
\<close>

record ('m, 'x) env =
  fit :: "jvalue list list \<Rightarrow> error + 'm"
  transform :: "'m \<Rightarrow> jvalue list \<Rightarrow> error + 'x"
  predict :: "'m \<Rightarrow> 'x \<Rightarrow> error + int"
  score_samples :: "'m \<Rightarrow> 'x \<Rightarrow> error + real"
  pickle_dump :: "'m \<Rightarrow> error option"
  mqtt_publish :: "alert \<Rightarrow> error option"
  round4 :: "real \<Rightarrow> real"
  valid_isoformat :: "string \<Rightarrow> bool"

subsection \<open>Helpers of the pipeline\<close>

text \<open>
  A value used as a key of \<^verbatim>\<open>machine_data\<close>: lists and dicts are unhashable
  (TypeError), and \<^verbatim>\<open>True\<close> and \<^verbatim>\<open>False\<close> are the keys 1 and 0.
\<close>

fun dict_key :: "jvalue \<Rightarrow> error + jvalue" where
  "dict_key (JArr xs) = Inl TypeError"
| "dict_key (JObj kvs) = Inl TypeError"
| "dict_key (JBool b) = Inr (JNum (if b then 1 else 0))"
| "dict_key v = Inr v"

text \<open>\<^verbatim>\<open>deque.append\<close> with a \<^verbatim>\<open>maxlen\<close>: append, then drop the head if too long.\<close>

definition deque_append :: "nat \<Rightarrow> 'a list \<Rightarrow> 'a \<Rightarrow> 'a list" where
  "deque_append maxlen xs x = (let ys = xs @ [x] in if length ys > maxlen then tl ys else ys)"

text \<open>The format \<^verbatim>\<open>{n:04d}\<close>: decimal digits, padded with zeros to width 4.\<close>

definition digit_char :: "nat \<Rightarrow> char" where
  "digit_char d = ''0123456789'' ! d"

fun dec :: "nat \<Rightarrow> string" where
  "dec n = (if n < 10 then [digit_char n] else dec (n div 10) @ [digit_char (n mod 10)])"

declare dec.simps [simp del]

definition format_04d :: "nat \<Rightarrow> string" where
  "format_04d n = (let d = dec n in replicate (4 - length d) CHR ''0'' @ d)"

text \<open>
  The format \<^verbatim>\<open>.1f\<close> and \<^verbatim>\<open>.2f\<close> of a decoded value: a string raises ValueError.
  (Python raises OverflowError for an int too large for a float; numbers are reals here,
  so that case is not modelled. Only the line printed by \<^verbatim>\<open>log_normal_operation\<close>
  depends on it.)
\<close>

fun format_f :: "jvalue \<Rightarrow> error + real" where
  "format_f (JNum r) = Inr r"
| "format_f (JBool b) = Inr (if b then 1 else 0)"
| "format_f (JStr s) = Inl ValueError"
| "format_f _ = Inl TypeError"

subsection \<open>The methods\<close>

text \<open>\<^verbatim>\<open>extract_features\<close>, lines 90 to 98.\<close>

definition extract_features :: "reading \<Rightarrow> jvalue list" where
  "extract_features data =
     [dict_get data ''temperature'' (JNum 0),
      dict_get data ''vibration'' (JNum 0),
      dict_get data ''current'' (JNum 0),
      dict_get data ''pressure'' (JNum 0),
      dict_get data ''rpm'' (JNum 0)]"

text \<open>
  \<^verbatim>\<open>train_model\<close>, lines 100 to 128. The flag is set at line 119, before the file is
  opened at line 126. (Were \<open>fit\<close> to raise after the scaler was refitted, the
  attributes \<^verbatim>\<open>scaler\<close> and \<^verbatim>\<open>model\<close> would hold a partial result; nothing reads them
  while \<^verbatim>\<open>model_trained\<close> is false, and the model keeps \<open>model\<close> unchanged.)
\<close>

definition train_model :: "('m, 'x) env \<Rightarrow> 'm monitor \<Rightarrow> (error + unit) \<times> 'm monitor" where
  "train_model env s =
     (let s1 = s\<lparr>stdout := stdout s @ [TrainingBanner]\<rparr> in
      case fit env (training_data s1) of
        Inl e \<Rightarrow> (Inl e, s1)
      | Inr m \<Rightarrow>
          (let s2 = s1\<lparr>model := Some m, model_trained := True,
                       stdout := stdout s1 @ [ModelTrained (length (training_data s1))]\<rparr>
           in case pickle_dump env m of
                Some e \<Rightarrow> (Inl e, s2)
              | None \<Rightarrow> (Inr (), s2\<lparr>stdout := stdout s2 @ [ModelSaved]\<rparr>)))"

text \<open>\<^verbatim>\<open>detect_anomaly\<close>, lines 130 to 143.\<close>

definition detect_anomaly ::
  "('m, 'x) env \<Rightarrow> 'm monitor \<Rightarrow> jvalue list \<Rightarrow> error + (bool \<times> real)" where
  "detect_anomaly env s features =
     (case model s of
        None \<Rightarrow> Inl NotFittedError
      | Some m \<Rightarrow>
          (case transform env m features of Inl e \<Rightarrow> Inl e | Inr x \<Rightarrow>
          (case predict env m x of Inl e \<Rightarrow> Inl e | Inr prediction \<Rightarrow>
          (case score_samples env m x of Inl e \<Rightarrow> Inl e | Inr score \<Rightarrow>
             Inr (prediction = - 1, score)))))"

text \<open>
  The dict display of lines 149 to 163, whose entries are evaluated in order; \<open>n\<close> is
  the value of \<^verbatim>\<open>anomalies_detected\<close> after line 147.
\<close>

definition build_alert ::
  "('m, 'x) env \<Rightarrow> nat \<Rightarrow> jvalue \<Rightarrow> reading \<Rightarrow> real \<Rightarrow> error + alert" where
  "build_alert env n mid data score =
     (case subscript data ''timestamp'' of Inl e \<Rightarrow> Inl e | Inr ts \<Rightarrow>
     (case subscript data ''temperature'' of Inl e \<Rightarrow> Inl e | Inr t \<Rightarrow>
     (case subscript data ''vibration'' of Inl e \<Rightarrow> Inl e | Inr v \<Rightarrow>
     (case subscript data ''current'' of Inl e \<Rightarrow> Inl e | Inr c \<Rightarrow>
     (case subscript data ''pressure'' of Inl e \<Rightarrow> Inl e | Inr p \<Rightarrow>
     (case subscript data ''rpm'' of Inl e \<Rightarrow> Inl e | Inr r \<Rightarrow>
     (case get_recommendation data of Inl e \<Rightarrow> Inl e | Inr advice \<Rightarrow>
        Inr \<lparr>alert_id = ''ALERT_'' @ format_04d n,
             machine_id = mid,
             timestamp = ts,
             anomaly_score = round4 env score,
             metrics = \<lparr>temperature = t, vibration = v, current = c, pressure = p, rpm = r\<rparr>,
             severity = calculate_severity score,
             recommendation = advice\<rparr>)))))))"

text \<open>\<^verbatim>\<open>handle_anomaly\<close>, lines 145 to 195.\<close>

definition handle_anomaly ::
  "('m, 'x) env \<Rightarrow> jvalue \<Rightarrow> reading \<Rightarrow> real \<Rightarrow> 'm monitor \<Rightarrow> (error + unit) \<times> 'm monitor" where
  "handle_anomaly env mid data score s =
     (let s1 = s\<lparr>anomalies_detected := anomalies_detected s + 1\<rparr> in
      case build_alert env (anomalies_detected s1) mid data score of
        Inl e \<Rightarrow> (Inl e, s1)
      | Inr a \<Rightarrow>
          (case dict_key mid of Inl e \<Rightarrow> (Inl e, s1) | Inr k \<Rightarrow>
          (case machine_data s1 k of
             None \<Rightarrow> (Inl (KeyError mid), s1)
           | Some ms \<Rightarrow>
               (let s2 = s1\<lparr>machine_data := (machine_data s1)(k \<mapsto> ms\<lparr>alerts := alerts ms @ [a]\<rparr>)\<rparr>;
                    s3 = s2\<lparr>alert_history := alert_history s2 @ [a]\<rparr>
                in case mqtt_publish env a of
                     Some e \<Rightarrow> (Inl e, s3)
                   | None \<Rightarrow>
                       (let s4 = s3\<lparr>published := published s3 @ [a]\<rparr>;
                            s5 = s4\<lparr>stdout := stdout s4 @ [AnomalyHeader a]\<rparr>
                        in case subscript data ''timestamp'' of
                             Inl e \<Rightarrow> (Inl e, s5)
                           | Inr (JStr stamp) \<Rightarrow>
                               if valid_isoformat env stamp
                               then (Inr (), s5\<lparr>stdout := stdout s5 @ [AnomalyDetails a]\<rparr>)
                               else (Inl ValueError, s5)
                           | Inr _ \<Rightarrow> (Inl TypeError, s5))))))"

text \<open>\<^verbatim>\<open>log_normal_operation\<close>, lines 224 to 229: one print of one formatted string.\<close>

definition log_normal_operation ::
  "jvalue \<Rightarrow> reading \<Rightarrow> 'm monitor \<Rightarrow> (error + unit) \<times> 'm monitor" where
  "log_normal_operation mid data s =
     (case subscript data ''temperature'' of Inl e \<Rightarrow> (Inl e, s) | Inr t \<Rightarrow>
     (case format_f t of Inl e \<Rightarrow> (Inl e, s) | Inr tf \<Rightarrow>
     (case subscript data ''vibration'' of Inl e \<Rightarrow> (Inl e, s) | Inr v \<Rightarrow>
     (case format_f v of Inl e \<Rightarrow> (Inl e, s) | Inr vf \<Rightarrow>
     (case subscript data ''current'' of Inl e \<Rightarrow> (Inl e, s) | Inr c \<Rightarrow>
     (case format_f c of Inl e \<Rightarrow> (Inl e, s) | Inr cf \<Rightarrow>
        (Inr (), s\<lparr>stdout := stdout s @ [NormalOperation mid tf vf cf]\<rparr>)))))))"

text \<open>Lines 62 to 69 of \<^verbatim>\<open>process_sensor_data\<close>, for a hashable machine id.\<close>

definition store_reading :: "jvalue \<Rightarrow> reading \<Rightarrow> 'm monitor \<Rightarrow> 'm monitor" where
  "store_reading k data s =
     (let ms = (case machine_data s k of
                  None \<Rightarrow> \<lparr>readings = [], alerts = []\<rparr>
                | Some ms \<Rightarrow> ms)
      in s\<lparr>machine_data := (machine_data s)(k \<mapsto> ms\<lparr>readings := deque_append 50 (readings ms) data\<rparr>)\<rparr>)"

text \<open>Lines 75 to 79.\<close>

definition collect_training ::
  "('m, 'x) env \<Rightarrow> jvalue list \<Rightarrow> 'm monitor \<Rightarrow> (error + unit) \<times> 'm monitor" where
  "collect_training env features s =
     (if \<not> model_trained s then
        (let s1 = s\<lparr>training_data := training_data s @ [features]\<rparr> in
         if length (training_data s1) \<ge> min_training_samples
         then train_model env s1
         else (Inr (), s1))
      else (Inr (), s))"

text \<open>Lines 82 to 88.\<close>

definition score_reading ::
  "('m, 'x) env \<Rightarrow> jvalue \<Rightarrow> reading \<Rightarrow> jvalue list \<Rightarrow> 'm monitor \<Rightarrow> (error + unit) \<times> 'm monitor" where
  "score_reading env mid data features s =
     (if model_trained s then
        (case detect_anomaly env s features of
           Inl e \<Rightarrow> (Inl e, s)
         | Inr (is_anomaly, score) \<Rightarrow>
             if is_anomaly then handle_anomaly env mid data score s
             else log_normal_operation mid data s)
      else (Inr (), s))"

text \<open>
  \<^verbatim>\<open>process_sensor_data\<close>, lines 56 to 88. Subscripting anything but a dict with a
  string raises TypeError; the lookup of \<^verbatim>\<open>machine_id\<close> at line 58 comes before the
  increment of line 59, the membership test of line 62 (which hashes the id) after it.
\<close>

definition process_sensor_data ::
  "('m, 'x) env \<Rightarrow> jvalue \<Rightarrow> 'm monitor \<Rightarrow> (error + unit) \<times> 'm monitor" where
  "process_sensor_data env msg s =
     (case msg of
        JObj data \<Rightarrow>
          (case subscript data ''machine_id'' of
             Inl e \<Rightarrow> (Inl e, s)
           | Inr mid \<Rightarrow>
               (let s1 = s\<lparr>total_readings := total_readings s + 1\<rparr> in
                case dict_key mid of
                  Inl e \<Rightarrow> (Inl e, s1)
                | Inr k \<Rightarrow>
                    (let s2 = store_reading k data s1;
                         features = extract_features data
                     in case collect_training env features s2 of
                          (Inl e, s3) \<Rightarrow> (Inl e, s3)
                        | (Inr u, s3) \<Rightarrow> score_reading env mid data features s3)))
      | _ \<Rightarrow> (Inl TypeError, s))"

text \<open>
  \<^verbatim>\<open>on_message\<close>, lines 48 to 54. The message is given by what decoding its payload
  yields: a decoded value, or the exception of \<^verbatim>\<open>decode\<close> or \<^verbatim>\<open>json.loads\<close>. Every
  exception is caught and printed.
\<close>

definition on_message :: "('m, 'x) env \<Rightarrow> error + jvalue \<Rightarrow> 'm monitor \<Rightarrow> 'm monitor" where
  "on_message env payload s =
     (case payload of
        Inl e \<Rightarrow> s\<lparr>stdout := stdout s @ [ErrorProcessing e]\<rparr>
      | Inr msg \<Rightarrow>
          (case process_sensor_data env msg s of
             (Inl e, s') \<Rightarrow> s'\<lparr>stdout := stdout s' @ [ErrorProcessing e]\<rparr>
           | (Inr u, s') \<Rightarrow> s'))"

text \<open>The messages of one process lifetime, handled one at a time in arrival order.\<close>

fun run :: "('m, 'x) env \<Rightarrow> (error + jvalue) list \<Rightarrow> 'm monitor \<Rightarrow> 'm monitor" where
  "run env [] s = s"
| "run env (p # ps) s = run env ps (on_message env p s)"

subsection \<open>Observations on a run\<close>

text \<open>
  A message that reaches line 69: a dict whose \<^verbatim>\<open>machine_id\<close> is present and hashable.
  The result is the id, its dictionary key and the dict.
\<close>

definition accepted :: "error + jvalue \<Rightarrow> (jvalue \<times> jvalue \<times> reading) option" where
  "accepted payload =
     (case payload of
        Inr (JObj data) \<Rightarrow>
          (case subscript data ''machine_id'' of
             Inr mid \<Rightarrow> (case dict_key mid of Inr k \<Rightarrow> Some (mid, k, data) | Inl e \<Rightarrow> None)
           | Inl e \<Rightarrow> None)
      | _ \<Rightarrow> None)"

text \<open>A message that reaches line 59: a dict with a \<^verbatim>\<open>machine_id\<close>.\<close>

definition counted :: "error + jvalue \<Rightarrow> bool" where
  "counted payload =
     (case payload of
        Inr (JObj data) \<Rightarrow> map_of data ''machine_id'' \<noteq> None
      | _ \<Rightarrow> False)"

text \<open>The readings and the alerts stored for a machine, empty for an unknown one.\<close>

definition stored_readings :: "'m monitor \<Rightarrow> jvalue \<Rightarrow> reading list" where
  "stored_readings s k = (case machine_data s k of None \<Rightarrow> [] | Some ms \<Rightarrow> readings ms)"

definition alerts_of :: "'m monitor \<Rightarrow> jvalue \<Rightarrow> alert list" where
  "alerts_of s k = (case machine_data s k of None \<Rightarrow> [] | Some ms \<Rightarrow> alerts ms)"

text \<open>The readings of the machine with key \<open>k\<close> among the messages, in arrival order.\<close>

fun readings_for :: "jvalue \<Rightarrow> (error + jvalue) list \<Rightarrow> reading list" where
  "readings_for k [] = []"
| "readings_for k (p # ps) =
     (case accepted p of
        Some (mid, k', data) \<Rightarrow> if k' = k then data # readings_for k ps else readings_for k ps
      | None \<Rightarrow> readings_for k ps)"

text \<open>
  How often \<^verbatim>\<open>train_model\<close> was entered (it prints its banner first, line 103), and how
  often it got as far as line 121.
\<close>

definition train_model_calls :: "'m monitor \<Rightarrow> nat" where
  "train_model_calls s = length (filter (\<lambda>l. l = TrainingBanner) (stdout s))"

fun is_model_trained_line :: "out_line \<Rightarrow> bool" where
  "is_model_trained_line (ModelTrained n) = True"
| "is_model_trained_line _ = False"

definition models_fitted :: "'m monitor \<Rightarrow> nat" where
  "models_fitted s = length (filter is_model_trained_line (stdout s))"

subsection \<open>A small instance of the libraries, for concrete runs\<close>

text \<open>
  Fitting and transforming raise ValueError on anything but numbers, as scikit-learn
  does; the fitted pair carries no information; a reading is an outlier when its
  temperature feature is above 100, and every score is -0.6. The file and the broker
  accept every write, every timestamp parses.
\<close>

fun is_num :: "jvalue \<Rightarrow> bool" where
  "is_num (JNum r) = True"
| "is_num (JBool b) = True"
| "is_num _ = False"

definition demo_predict :: "jvalue list \<Rightarrow> int" where
  "demo_predict x = (case x of JNum t # rest \<Rightarrow> if t > 100 then - 1 else 1 | _ \<Rightarrow> 1)"

definition demo_env :: "(unit, jvalue list) env" where
  "demo_env =
     \<lparr>fit = (\<lambda>X. if list_all (list_all is_num) X then Inr () else Inl ValueError),
      transform = (\<lambda>m f. if list_all is_num f then Inr f else Inl ValueError),
      predict = (\<lambda>m x. Inr (demo_predict x)),
      score_samples = (\<lambda>m x. Inr (- 0.6)),
      pickle_dump = (\<lambda>m. None),
      mqtt_publish = (\<lambda>a. None),
      round4 = (\<lambda>r. r),
      valid_isoformat = (\<lambda>stamp. True)\<rparr>"

text \<open>A reading as the simulator sends it, with the given machine and temperature.\<close>

definition sim_reading :: "string \<Rightarrow> jvalue \<Rightarrow> reading" where
  "sim_reading name t =
     [(''machine_id'', JStr name), (''timestamp'', JStr ''2024-01-01T00:00:00''),
      (''temperature'', t), (''vibration'', JNum 2), (''current'', JNum 10),
      (''pressure'', JNum 6), (''rpm'', JNum 1500)]"

subsection \<open>The step on a message, in parts\<close>

text \<open>What \<^verbatim>\<open>on_message\<close> does with the outcome of \<^verbatim>\<open>process_sensor_data\<close>.\<close>

definition finish :: "(error + unit) \<times> 'm monitor \<Rightarrow> 'm monitor" where
  "finish r = (case r of (Inl e, s') \<Rightarrow> s'\<lparr>stdout := stdout s' @ [ErrorProcessing e]\<rparr> | (Inr u, s') \<Rightarrow> s')"

text \<open>The step on an accepted reading, as the pair of its two phases.\<close>

definition phases ::
  "('m, 'x) env \<Rightarrow> jvalue \<Rightarrow> jvalue \<Rightarrow> reading \<Rightarrow> 'm monitor \<Rightarrow> (error + unit) \<times> 'm monitor" where
  "phases env mid k d s =
     (case collect_training env (extract_features d)
             (store_reading k d (s\<lparr>total_readings := total_readings s + 1\<rparr>)) of
        (Inl e, s3) \<Rightarrow> (Inl e, s3)
      | (Inr u, s3) \<Rightarrow> score_reading env mid d (extract_features d) s3)"

subsection \<open>Invariants\<close>

text \<open>While the model is not trained, nothing about anomalies has been recorded.\<close>

definition gated :: "'m monitor \<Rightarrow> bool" where
  "gated s \<longleftrightarrow>
     (\<not> model_trained s \<longrightarrow>
        alert_history s = [] \<and> published s = [] \<and> anomalies_detected s = 0
        \<and> (\<forall>k ms. machine_data s k = Some ms \<longrightarrow> alerts ms = []))"

text \<open>The first \<open>n\<close> readings of one machine, the \<open>i\<close>-th with temperature \<open>i\<close>.\<close>

definition sim_stream :: "nat \<Rightarrow> (error + jvalue) list" where
  "sim_stream n = map (\<lambda>i. Inr (JObj (sim_reading ''M'' (JNum (real i))))) [0..<n]"

text \<open>
  The recommendation as the specification words it: the messages of the violated
  thresholds, in the fixed order, joined; the generic text when there is none.
\<close>

definition advice :: "bool \<Rightarrow> bool \<Rightarrow> bool \<Rightarrow> bool \<Rightarrow> string" where
  "advice hot shaking drawing slow =
     (let violated = map snd (filter fst
            [(hot, ''Temperature exceeds safe threshold''),
             (shaking, ''Excessive vibration detected''),
             (drawing, ''High current draw''),
             (slow, ''RPM below optimal range'')])
      in if violated = [] then ''Monitor closely for additional anomalies''
         else ''Schedule inspection: '' @ join ''; '' violated)"

text \<open>The monitor after \<open>n\<close> readings of machine M with temperature value \<open>t\<close>, untrained.\<close>

definition collecting :: "nat \<Rightarrow> jvalue \<Rightarrow> unit monitor" where
  "collecting n t =
     \<lparr>machine_data = (if n = 0 then Map.empty
                       else [JStr ''M'' \<mapsto> \<lparr>readings = replicate n (sim_reading ''M'' t), alerts = []\<rparr>]),
      alert_history = [], model = None, model_trained = False,
      training_data = replicate n [t, JNum 2, JNum 10, JNum 6, JNum 1500],
      total_readings = n, anomalies_detected = 0, published = [], stdout = []\<rparr>"

text \<open>
  The feature vectors of the readings among the messages, in arrival order: what
  line 76 appends to \<^verbatim>\<open>training_data\<close> while the model is not trained.
\<close>

fun features_of :: "(error + jvalue) list \<Rightarrow> jvalue list list" where
  "features_of [] = []"
| "features_of (p # ps) =
     (case accepted p of
        Some (mid, k, data) \<Rightarrow> extract_features data # features_of ps
      | None \<Rightarrow> features_of ps)"

text \<open>
  The training record of a monitor that has received readings with feature vectors
  \<open>fs\<close>: its training data are the first \<open>n\<close> of them; \<^verbatim>\<open>train_model\<close> was entered once
  for each of the readings from the thirtieth to the \<open>n\<close>-th; every fit before the
  \<open>n\<close>-th raised; the model is trained when the fit of the first \<open>n\<close> returned, and
  otherwise all the vectors are held and the last fit, if any, raised.
\<close>

definition training_inv :: "('m, 'x) env \<Rightarrow> jvalue list list \<Rightarrow> 'm monitor \<Rightarrow> bool" where
  "training_inv env fs s \<longleftrightarrow>
     models_fitted s = (if model_trained s then 1 else 0)
     \<and> (\<exists>n. n \<le> length fs \<and> training_data s = take n fs
            \<and> train_model_calls s = n + 1 - min_training_samples
            \<and> (\<forall>j. min_training_samples \<le> j \<and> j < n \<longrightarrow> (\<exists>e. fit env (take j fs) = Inl e))
            \<and> (if model_trained s
                then min_training_samples \<le> n \<and> (\<exists>m. fit env (take n fs) = Inr m \<and> model s = Some m)
                else n = length fs
                     \<and> (min_training_samples \<le> n \<longrightarrow> (\<exists>e. fit env (take n fs) = Inl e))))"

text \<open>The six keys that the alert record reads with \<^verbatim>\<open>data[...]\<close>, in the order read.\<close>

definition alert_keys :: "string list" where
  "alert_keys = [''timestamp'', ''temperature'', ''vibration'', ''current'', ''pressure'', ''rpm'']"

text \<open>A reading from which the alert record can be built: the six keys, four of them numeric.\<close>

definition complete :: "reading \<Rightarrow> bool" where
  "complete data \<longleftrightarrow>
     list_all (\<lambda>key. map_of data key \<noteq> None) alert_keys
     \<and> list_all (\<lambda>key. case map_of data key of Some v \<Rightarrow> is_num v | None \<Rightarrow> False)
          [''temperature'', ''vibration'', ''current'', ''rpm'']"


text \<open>A reading of machine M that the demo model flags, without its timestamp.\<close>

definition untimed_reading :: reading where
  "untimed_reading =
     [(''machine_id'', JStr ''M''), (''temperature'', JNum 120), (''vibration'', JNum 8),
      (''current'', JNum 20), (''pressure'', JNum 6), (''rpm'', JNum 1200)]"

text \<open>The libraries of \<open>demo_env\<close>, with a model file that cannot be written.\<close>

definition readonly_env :: "(unit, jvalue list) env" where
  "readonly_env = demo_env\<lparr>pickle_dump := (\<lambda>m. Some OSError)\<rparr>"




section \<open>How a message changes the monitor\<close>

lemma run_snoc: "run env (ps @ [p]) s = on_message env p (run env ps s)"
  by (induction ps arbitrary: s) simp_all


lemma train_model_frame:
  "machine_data (snd (train_model env s)) = machine_data s
   \<and> alert_history (snd (train_model env s)) = alert_history s
   \<and> training_data (snd (train_model env s)) = training_data s
   \<and> total_readings (snd (train_model env s)) = total_readings s
   \<and> anomalies_detected (snd (train_model env s)) = anomalies_detected s
   \<and> published (snd (train_model env s)) = published s"
  by (simp add: train_model_def Let_def split: sum.split option.split)

lemma log_normal_operation_frame:
  "snd (log_normal_operation mid data s) = s\<lparr>stdout := stdout (snd (log_normal_operation mid data s))\<rparr>"
  by (simp add: log_normal_operation_def split: sum.split)

lemma handle_anomaly_frame:
  "model (snd (handle_anomaly env mid data score s)) = model s
   \<and> model_trained (snd (handle_anomaly env mid data score s)) = model_trained s
   \<and> training_data (snd (handle_anomaly env mid data score s)) = training_data s
   \<and> total_readings (snd (handle_anomaly env mid data score s)) = total_readings s
   \<and> anomalies_detected (snd (handle_anomaly env mid data score s)) = anomalies_detected s + 1"
  by (simp add: handle_anomaly_def Let_def split: sum.split option.split jvalue.split)

lemma collect_training_frame:
  "machine_data (snd (collect_training env f s)) = machine_data s
   \<and> alert_history (snd (collect_training env f s)) = alert_history s
   \<and> total_readings (snd (collect_training env f s)) = total_readings s
   \<and> anomalies_detected (snd (collect_training env f s)) = anomalies_detected s
   \<and> published (snd (collect_training env f s)) = published s"
  by (simp add: collect_training_def Let_def train_model_frame)

lemma collect_training_trained:
  "model_trained s \<Longrightarrow> collect_training env f s = (Inr (), s)"
  by (simp add: collect_training_def)

lemma score_reading_untrained:
  "\<not> model_trained s \<Longrightarrow> score_reading env mid data f s = (Inr (), s)"
  by (simp add: score_reading_def)

lemma score_reading_frame:
  "model (snd (score_reading env mid data f s)) = model s
   \<and> model_trained (snd (score_reading env mid data f s)) = model_trained s
   \<and> training_data (snd (score_reading env mid data f s)) = training_data s
   \<and> total_readings (snd (score_reading env mid data f s)) = total_readings s"
proof -
  have l: "model (snd (log_normal_operation mid data s)) = model s
     \<and> model_trained (snd (log_normal_operation mid data s)) = model_trained s
     \<and> training_data (snd (log_normal_operation mid data s)) = training_data s
     \<and> total_readings (snd (log_normal_operation mid data s)) = total_readings s"
    by (simp add: log_normal_operation_def split: sum.split)
  show ?thesis
    by (simp add: score_reading_def handle_anomaly_frame l split: sum.split prod.split)
qed


lemma accepted_SomeD:
  "accepted p = Some (mid, k, d) \<Longrightarrow>
     p = Inr (JObj d) \<and> subscript d ''machine_id'' = Inr mid \<and> dict_key mid = Inr k"
  unfolding accepted_def
  by (cases p) (simp_all split: jvalue.splits sum.splits)

lemma accepted_counted: "accepted p = Some x \<Longrightarrow> counted p"
  unfolding accepted_def counted_def subscript_def
  by (cases p) (simp_all split: jvalue.splits sum.splits option.splits)

lemma finish_fields:
  "machine_data (finish r) = machine_data (snd r)
   \<and> alert_history (finish r) = alert_history (snd r)
   \<and> model (finish r) = model (snd r)
   \<and> model_trained (finish r) = model_trained (snd r)
   \<and> training_data (finish r) = training_data (snd r)
   \<and> total_readings (finish r) = total_readings (snd r)
   \<and> anomalies_detected (finish r) = anomalies_detected (snd r)
   \<and> published (finish r) = published (snd r)"
  by (simp add: finish_def split: prod.split sum.split)

lemma on_message_accepted:
  assumes "accepted p = Some (mid, k, d)"
  shows "on_message env p s =
           finish (case collect_training env (extract_features d)
                          (store_reading k d (s\<lparr>total_readings := total_readings s + 1\<rparr>)) of
                     (Inl e, s3) \<Rightarrow> (Inl e, s3)
                   | (Inr u, s3) \<Rightarrow> score_reading env mid d (extract_features d) s3)"
  using accepted_SomeD [OF assms]
  by (simp add: on_message_def process_sensor_data_def finish_def Let_def split: prod.split sum.split)

lemma on_message_rejected:
  assumes "accepted p = None"
  shows "machine_data (on_message env p s) = machine_data s
   \<and> alert_history (on_message env p s) = alert_history s
   \<and> model (on_message env p s) = model s
   \<and> model_trained (on_message env p s) = model_trained s
   \<and> training_data (on_message env p s) = training_data s
   \<and> total_readings (on_message env p s) = total_readings s + (if counted p then 1 else 0)
   \<and> anomalies_detected (on_message env p s) = anomalies_detected s
   \<and> published (on_message env p s) = published s
   \<and> (\<exists>e. stdout (on_message env p s) = stdout s @ [ErrorProcessing e])"
proof (cases p)
  case (Inl e)
  then show ?thesis by (simp add: on_message_def counted_def)
next
  case (Inr msg)
  show ?thesis
  proof (cases msg)
    case (JObj d)
    show ?thesis
    proof (cases "map_of d ''machine_id''")
      case None
      then show ?thesis using Inr JObj
        by (simp add: on_message_def process_sensor_data_def subscript_def counted_def)
    next
      case (Some mid)
      then have "\<exists>e. dict_key mid = Inl e" using assms Inr JObj
        by (simp add: accepted_def subscript_def split: sum.splits)
      then show ?thesis using Inr JObj Some
        by (auto simp: on_message_def process_sensor_data_def subscript_def counted_def Let_def)
    qed
  qed (simp_all add: Inr on_message_def process_sensor_data_def counted_def)
qed


lemma store_reading_frame:
  "alert_history (store_reading k d s) = alert_history s
   \<and> model (store_reading k d s) = model s
   \<and> model_trained (store_reading k d s) = model_trained s
   \<and> training_data (store_reading k d s) = training_data s
   \<and> total_readings (store_reading k d s) = total_readings s
   \<and> anomalies_detected (store_reading k d s) = anomalies_detected s
   \<and> published (store_reading k d s) = published s
   \<and> stdout (store_reading k d s) = stdout s"
  by (simp add: store_reading_def Let_def)

lemma store_reading_alerts: "alerts_of (store_reading k d s) k' = alerts_of s k'"
  by (simp add: store_reading_def alerts_of_def Let_def split: option.split)

lemma store_reading_readings:
  "stored_readings (store_reading k d s) k' =
     (if k' = k then deque_append 50 (stored_readings s k) d else stored_readings s k')"
  by (simp add: store_reading_def stored_readings_def Let_def split: option.split)

lemma store_reading_known: "machine_data (store_reading k d s) k \<noteq> None"
  by (simp add: store_reading_def Let_def)

lemma phases_trained_eq:
  "model_trained s \<Longrightarrow>
     phases env mid k d s = score_reading env mid d (extract_features d)
          (store_reading k d (s\<lparr>total_readings := total_readings s + 1\<rparr>))"
  by (simp add: phases_def collect_training_trained store_reading_frame)

lemma phases_trained:
  assumes "model_trained s"
  shows "model_trained (snd (phases env mid k d s)) \<and> model (snd (phases env mid k d s)) = model s
    \<and> training_data (snd (phases env mid k d s)) = training_data s"
  using assms
  by (simp add: phases_trained_eq store_reading_frame score_reading_frame)

lemma phases_counters:
  "total_readings (snd (phases env mid k d s)) = total_readings s + 1
   \<and> anomalies_detected s \<le> anomalies_detected (snd (phases env mid k d s))
   \<and> anomalies_detected (snd (phases env mid k d s)) \<le> anomalies_detected s + 1"
proof -
  let ?s2 = "store_reading k d (s\<lparr>total_readings := total_readings s + 1\<rparr>)"
  let ?f = "extract_features d"
  obtain r s3 where c: "collect_training env ?f ?s2 = (r, s3)" by (cases "collect_training env ?f ?s2")
  have s3: "total_readings s3 = total_readings s + 1 \<and> anomalies_detected s3 = anomalies_detected s"
    using collect_training_frame [of env ?f ?s2] c by (simp add: store_reading_frame)
  have sc: "total_readings (snd (score_reading env mid d ?f s3)) = total_readings s3
     \<and> anomalies_detected s3 \<le> anomalies_detected (snd (score_reading env mid d ?f s3))
     \<and> anomalies_detected (snd (score_reading env mid d ?f s3)) \<le> anomalies_detected s3 + 1"
    by (simp add: score_reading_def handle_anomaly_frame log_normal_operation_def score_reading_frame
        split: sum.split prod.split)
  show ?thesis using c s3 sc by (cases r) (simp_all add: phases_def)
qed


lemma on_message_phases:
  "accepted p = Some (mid, k, d) \<Longrightarrow> on_message env p s = finish (phases env mid k d s)"
  by (simp add: on_message_accepted phases_def)

lemma phases_untrained:
  assumes "\<not> model_trained (snd (phases env mid k d s))"
  shows "alert_history (snd (phases env mid k d s)) = alert_history s
   \<and> anomalies_detected (snd (phases env mid k d s)) = anomalies_detected s
   \<and> published (snd (phases env mid k d s)) = published s
   \<and> (\<forall>k'. alerts_of (snd (phases env mid k d s)) k' = alerts_of s k')"
proof -
  let ?s2 = "store_reading k d (s\<lparr>total_readings := total_readings s + 1\<rparr>)"
  let ?f = "extract_features d"
  obtain r s3 where c: "collect_training env ?f ?s2 = (r, s3)" by (cases "collect_training env ?f ?s2")
  have s3: "alert_history s3 = alert_history s \<and> anomalies_detected s3 = anomalies_detected s
      \<and> published s3 = published s \<and> machine_data s3 = machine_data ?s2"
    using collect_training_frame [of env ?f ?s2] c by (simp add: store_reading_frame)
  have al: "alerts_of s3 k' = alerts_of s k'" for k'
    using s3 store_reading_alerts [of k d "s\<lparr>total_readings := total_readings s + 1\<rparr>" k']
    by (simp add: alerts_of_def)
  show ?thesis
  proof (cases r)
    case (Inl e)
    then show ?thesis using c s3 al by (simp add: phases_def)
  next
    case (Inr u)
    then have eq: "phases env mid k d s = score_reading env mid d ?f s3"
      using c by (simp add: phases_def)
    then have "\<not> model_trained s3" using assms score_reading_frame [of env mid d ?f s3] by simp
    then have "phases env mid k d s = (Inr (), s3)" using eq by (simp add: score_reading_untrained)
    then show ?thesis using s3 al by simp
  qed
qed

lemma on_message_cases:
  obtains (rejected) "accepted p = None"
  | (accepted) mid k d where "accepted p = Some (mid, k, d)"
  by (cases "accepted p") auto

lemma trained_step:
  assumes "model_trained s"
  shows "model_trained (on_message env p s) \<and> model (on_message env p s) = model s
     \<and> training_data (on_message env p s) = training_data s"
proof (cases p rule: on_message_cases)
  case rejected
  then show ?thesis using assms on_message_rejected [of p env s] by simp
next
  case (accepted mid k d)
  then show ?thesis using phases_trained [OF assms, of env mid k d]
    by (simp add: on_message_phases finish_fields)
qed

lemma untrained_step:
  assumes "\<not> model_trained (on_message env p s)"
  shows "alert_history (on_message env p s) = alert_history s
   \<and> anomalies_detected (on_message env p s) = anomalies_detected s
   \<and> published (on_message env p s) = published s
   \<and> (\<forall>k'. alerts_of (on_message env p s) k' = alerts_of s k')"
proof (cases p rule: on_message_cases)
  case rejected
  then show ?thesis using on_message_rejected [of p env s] by (simp add: alerts_of_def)
next
  case (accepted mid k d)
  have "\<not> model_trained (snd (phases env mid k d s))"
    using assms accepted by (simp add: on_message_phases finish_fields)
  from phases_untrained [OF this] show ?thesis
    using accepted by (simp add: on_message_phases finish_fields alerts_of_def)
qed

lemma counters_step:
  "total_readings (on_message env p s) = total_readings s + (if counted p then 1 else 0)
   \<and> anomalies_detected s \<le> anomalies_detected (on_message env p s)
   \<and> anomalies_detected (on_message env p s) \<le> anomalies_detected s + (if counted p then 1 else 0)"
proof (cases p rule: on_message_cases)
  case rejected
  then show ?thesis using on_message_rejected [of p env s] by simp
next
  case (accepted mid k d)
  then show ?thesis using phases_counters [of env mid k d s] accepted_counted [of p]
    by (simp add: on_message_phases finish_fields)
qed

lemma alerts_of_empty:
  "(\<forall>k. alerts_of s k = []) \<longleftrightarrow> (\<forall>k ms. machine_data s k = Some ms \<longrightarrow> alerts ms = [])"
  by (auto simp: alerts_of_def split: option.splits)

lemma gated_step: "gated s \<Longrightarrow> gated (on_message env p s)"
  unfolding gated_def alerts_of_empty [symmetric]
  using trained_step [of s env p] untrained_step [of env p s] by metis

lemma gated_run: "gated s \<Longrightarrow> gated (run env ps s)"
  by (induction ps arbitrary: s) (simp_all add: gated_step)

lemma gated_init: "gated init"
  by (simp add: gated_def init_def)

lemma collect_training_untrained:
  assumes "\<not> model_trained s"
  shows "training_data (snd (collect_training env f s)) = training_data s @ [f]
     \<and> (model_trained (snd (collect_training env f s))
          \<longrightarrow> min_training_samples \<le> length (training_data s @ [f]))"
  using assms
  by (simp add: collect_training_def Let_def train_model_frame)

lemma phases_enough:
  assumes "\<not> model_trained s" "model_trained (snd (phases env mid k d s))"
  shows "min_training_samples \<le> length (training_data (snd (phases env mid k d s)))"
proof -
  let ?s2 = "store_reading k d (s\<lparr>total_readings := total_readings s + 1\<rparr>)"
  let ?f = "extract_features d"
  obtain r s3 where c: "collect_training env ?f ?s2 = (r, s3)" by (cases "collect_training env ?f ?s2")
  have u: "\<not> model_trained ?s2" using assms(1) by (simp add: store_reading_frame)
  have t: "training_data s3 = training_data ?s2 @ [?f]
     \<and> (model_trained s3 \<longrightarrow> min_training_samples \<le> length (training_data ?s2 @ [?f]))"
    using collect_training_untrained [OF u, of env ?f] c by simp
  show ?thesis
  proof (cases r)
    case (Inl e)
    then show ?thesis using c t assms(2) by (simp add: phases_def)
  next
    case (Inr u)
    then have eq: "phases env mid k d s = score_reading env mid d ?f s3"
      using c by (simp add: phases_def)
    then show ?thesis using t assms(2) score_reading_frame [of env mid d ?f s3] by simp
  qed
qed

lemma enough_step:
  assumes "model_trained s \<longrightarrow> min_training_samples \<le> length (training_data s)"
  shows "model_trained (on_message env p s)
           \<longrightarrow> min_training_samples \<le> length (training_data (on_message env p s))"
proof (cases "model_trained s")
  case True
  then show ?thesis using assms trained_step [OF True, of env p] by simp
next
  case False
  show ?thesis
  proof (cases p rule: on_message_cases)
    case rejected
    then show ?thesis using False on_message_rejected [of p env s] by simp
  next
    case (accepted mid k d)
    then show ?thesis using phases_enough [OF False, of env mid k d]
      by (simp add: on_message_phases finish_fields)
  qed
qed

lemma enough_run:
  "(model_trained s \<longrightarrow> min_training_samples \<le> length (training_data s))
     \<Longrightarrow> model_trained (run env ps s)
           \<longrightarrow> min_training_samples \<le> length (training_data (run env ps s))"
  by (induction ps arbitrary: s) (simp_all add: enough_step)

section \<open>Scoring is gated on training\<close>

text \<open>
  Claim C1. Whatever messages have been handled since start-up, a monitor holding
  fewer than 30 training samples is not trained, and while \<open>model_trained\<close> is false
  the alert history is empty, nothing has been published, every machine's alert list
  is empty and \<open>anomalies_detected\<close> is 0.
\<close>

theorem no_alert_before_training:
  "(length (training_data (run env msgs init)) < 30 \<longrightarrow> \<not> model_trained (run env msgs init))
   \<and> (\<not> model_trained (run env msgs init) \<longrightarrow>
         alert_history (run env msgs init) = []
         \<and> published (run env msgs init) = []
         \<and> anomalies_detected (run env msgs init) = 0
         \<and> (\<forall>k ms. machine_data (run env msgs init) k = Some ms \<longrightarrow> alerts ms = []))"
proof -
  have "model_trained (run env msgs init)
          \<longrightarrow> min_training_samples \<le> length (training_data (run env msgs init))"
    by (rule enough_run) (simp add: init_def)
  moreover have "gated (run env msgs init)"
    by (rule gated_run [OF gated_init])
  ultimately show ?thesis
    by (auto simp: gated_def min_training_samples_def)
qed

text \<open>Two readings that the fitted model would flag, handled before training.\<close>

lemma demo_two:
  "length (training_data (run demo_env [Inr (JObj (sim_reading ''M1'' (JNum 120))),
        Inr (JObj (sim_reading ''M2'' (JNum 130)))] init)) = 2"
  by code_simp

lemma demo_two_M1:
  "machine_data (run demo_env [Inr (JObj (sim_reading ''M1'' (JNum 120))),
        Inr (JObj (sim_reading ''M2'' (JNum 130)))] init) (JStr ''M1'')
    = Some \<lparr>readings = [sim_reading ''M1'' (JNum 120)], alerts = []\<rparr>"
  by (simp add: on_message_def process_sensor_data_def subscript_def sim_reading_def
      store_reading_def collect_training_def score_reading_def init_def Let_def
      extract_features_def dict_get_def min_training_samples_def deque_append_def)


theorem no_alert_before_training_witness:
  "length (training_data (run demo_env [Inr (JObj (sim_reading ''M1'' (JNum 120))),
        Inr (JObj (sim_reading ''M2'' (JNum 130)))] init)) < 30
   \<and> \<not> model_trained (run demo_env [Inr (JObj (sim_reading ''M1'' (JNum 120))),
        Inr (JObj (sim_reading ''M2'' (JNum 130)))] init)
   \<and> alert_history (run demo_env [Inr (JObj (sim_reading ''M1'' (JNum 120))),
        Inr (JObj (sim_reading ''M2'' (JNum 130)))] init) = []
   \<and> anomalies_detected (run demo_env [Inr (JObj (sim_reading ''M1'' (JNum 120))),
        Inr (JObj (sim_reading ''M2'' (JNum 130)))] init) = 0
   \<and> machine_data (run demo_env [Inr (JObj (sim_reading ''M1'' (JNum 120))),
        Inr (JObj (sim_reading ''M2'' (JNum 130)))] init) (JStr ''M1'')
       = Some \<lparr>readings = [sim_reading ''M1'' (JNum 120)], alerts = []\<rparr>"
  using no_alert_before_training [of demo_env "[Inr (JObj (sim_reading ''M1'' (JNum 120))),
        Inr (JObj (sim_reading ''M2'' (JNum 130)))]"] demo_two demo_two_M1
  by simp

section \<open>The counters\<close>

lemma on_message_Inr: "on_message env (Inr msg) s = finish (process_sensor_data env msg s)"
  by (simp add: on_message_def finish_def split: prod.split sum.split)

lemma counters_run:
  "anomalies_detected s \<le> total_readings s
     \<Longrightarrow> anomalies_detected (run env ps s) \<le> total_readings (run env ps s)"
proof (induction ps arbitrary: s)
  case Nil
  then show ?case by simp
next
  case (Cons p ps)
  have "anomalies_detected (on_message env p s) \<le> total_readings (on_message env p s)"
    using counters_step [of env p s] Cons.prems by (simp split: if_splits)
  then show ?case using Cons.IH by simp
qed

text \<open>
  Claim C4. After every run from start-up \<open>anomalies_detected\<close> is at most
  \<open>total_readings\<close>; both start at 0; a call of \<open>process_sensor_data\<close> on a reading (a
  dict carrying \<open>machine_id\<close>) adds exactly one to \<open>total_readings\<close> and at most one to
  \<open>anomalies_detected\<close>. A message without \<open>machine_id\<close> raises at line 58, before
  either counter is touched.
\<close>

theorem anomalies_le_total:
  fixes env :: "('m, 'x) env"
  shows "anomalies_detected (run env msgs init) \<le> total_readings (run env msgs init)
   \<and> total_readings (init :: 'm monitor) = 0
   \<and> anomalies_detected (init :: 'm monitor) = 0
   \<and> (counted (Inr msg) \<longrightarrow>
        total_readings (snd (process_sensor_data env msg s)) = total_readings s + 1
        \<and> anomalies_detected s \<le> anomalies_detected (snd (process_sensor_data env msg s))
        \<and> anomalies_detected (snd (process_sensor_data env msg s)) \<le> anomalies_detected s + 1)
   \<and> (\<not> counted (Inr msg) \<longrightarrow>
        total_readings (snd (process_sensor_data env msg s)) = total_readings s
        \<and> anomalies_detected (snd (process_sensor_data env msg s)) = anomalies_detected s)"
proof -
  have "anomalies_detected (run env msgs init) \<le> total_readings (run env msgs init)"
    by (rule counters_run) (simp add: init_def)
  moreover have "total_readings (snd (process_sensor_data env msg s))
                   = total_readings (on_message env (Inr msg) s)
     \<and> anomalies_detected (snd (process_sensor_data env msg s))
                   = anomalies_detected (on_message env (Inr msg) s)"
    by (simp add: on_message_Inr finish_fields)
  ultimately show ?thesis
    using counters_step [of env "Inr msg" s] by (auto simp: init_def split: if_splits)
qed

theorem anomalies_le_total_witness:
  "counted (Inr (JObj (sim_reading ''M1'' (JNum 120))))
   \<and> total_readings (snd (process_sensor_data demo_env (JObj (sim_reading ''M1'' (JNum 120)))
        (init :: unit monitor))) = 1
   \<and> \<not> counted (Inr (JObj []))
   \<and> total_readings (snd (process_sensor_data demo_env (JObj []) (init :: unit monitor))) = 0"
  using anomalies_le_total [of demo_env "[]" "JObj (sim_reading ''M1'' (JNum 120))" init]
    anomalies_le_total [of demo_env "[]" "JObj []" init]
  by (simp add: counted_def sim_reading_def init_def)

section \<open>The reading history of a machine\<close>

lemma handle_anomaly_machine_data:
  "machine_data (snd (handle_anomaly env mid data score s)) = machine_data s
   \<or> (\<exists>k ms a. machine_data s k = Some ms
         \<and> machine_data (snd (handle_anomaly env mid data score s))
             = (machine_data s)(k \<mapsto> ms\<lparr>alerts := alerts ms @ [a]\<rparr>))"
  by (auto simp: handle_anomaly_def Let_def split: sum.split option.split jvalue.split)

lemma handle_anomaly_readings:
  "stored_readings (snd (handle_anomaly env mid data score s)) k = stored_readings s k"
  using handle_anomaly_machine_data [of env mid data score s]
  by (auto simp: stored_readings_def)

lemma score_reading_readings:
  "stored_readings (snd (score_reading env mid data f s)) k = stored_readings s k"
proof -
  have "machine_data (snd (log_normal_operation mid data s)) = machine_data s"
    by (simp add: log_normal_operation_def split: sum.split)
  then have "stored_readings (snd (log_normal_operation mid data s)) k = stored_readings s k"
    by (simp add: stored_readings_def)
  then show ?thesis
    by (simp add: score_reading_def handle_anomaly_readings split: sum.split prod.split)
qed

lemma phases_readings:
  "stored_readings (snd (phases env mid k d s)) k' =
     (if k' = k then deque_append 50 (stored_readings s k) d else stored_readings s k')"
proof -
  let ?s1 = "s\<lparr>total_readings := total_readings s + 1\<rparr>"
  let ?s2 = "store_reading k d ?s1"
  let ?f = "extract_features d"
  obtain r s3 where c: "collect_training env ?f ?s2 = (r, s3)" by (cases "collect_training env ?f ?s2")
  have "machine_data s3 = machine_data ?s2"
    using collect_training_frame [of env ?f ?s2] c by simp
  then have "stored_readings s3 k' = stored_readings ?s2 k'"
    by (simp add: stored_readings_def)
  moreover have "stored_readings ?s1 k'' = stored_readings s k''" for k''
    by (simp add: stored_readings_def)
  ultimately have s3: "stored_readings s3 k' =
     (if k' = k then deque_append 50 (stored_readings s k) d else stored_readings s k')"
    by (simp add: store_reading_readings)
  show ?thesis using c s3 by (cases r) (simp_all add: phases_def score_reading_readings)
qed

lemma readings_step:
  "stored_readings (on_message env p s) k' =
     (case accepted p of
        Some (mid, k, d) \<Rightarrow>
          if k = k' then deque_append 50 (stored_readings s k') d else stored_readings s k'
      | None \<Rightarrow> stored_readings s k')"
proof (cases p rule: on_message_cases)
  case rejected
  then show ?thesis using on_message_rejected [of p env s] by (simp add: stored_readings_def)
next
  case (accepted mid k d)
  have "stored_readings (finish r) k' = stored_readings (snd r) k'" for r :: "(error + unit) \<times> 'a monitor"
    by (simp add: stored_readings_def finish_fields)
  then show ?thesis using accepted phases_readings [of env mid k d s k']
    by (auto simp: on_message_phases)
qed

lemma deque_append_bound: "length xs \<le> n \<Longrightarrow> length (deque_append n xs x) \<le> n"
  by (simp add: deque_append_def Let_def)

lemma deque_append_window:
  assumes "length xs \<le> n"
  shows "drop (length (deque_append n xs x @ ys) - n) (deque_append n xs x @ ys)
           = drop (length (xs @ x # ys) - n) (xs @ x # ys)"
proof (cases "length xs < n")
  case True
  then show ?thesis by (simp add: deque_append_def Let_def)
next
  case False
  then have n: "length xs = n" using assms by simp
  show ?thesis
  proof (cases xs)
    case Nil
    then show ?thesis using n by (simp add: deque_append_def Let_def)
  next
    case (Cons a as)
    then show ?thesis using n by (auto simp: deque_append_def Let_def)
  qed
qed

lemma readings_run:
  "length (stored_readings s k) \<le> 50 \<Longrightarrow>
     length (stored_readings (run env ps s) k) \<le> 50
     \<and> stored_readings (run env ps s) k =
         drop (length (stored_readings s k @ readings_for k ps) - 50)
           (stored_readings s k @ readings_for k ps)"
proof (induction ps arbitrary: s)
  case Nil
  then show ?case by simp
next
  case (Cons p ps)
  let ?s = "on_message env p s"
  show ?case
  proof (cases "\<exists>mid d. accepted p = Some (mid, k, d)")
    case True
    then obtain mid d where a: "accepted p = Some (mid, k, d)" by blast
    have st: "stored_readings ?s k = deque_append 50 (stored_readings s k) d"
      using a by (simp add: readings_step)
    then have "length (stored_readings ?s k) \<le> 50"
      using Cons.prems by (simp add: deque_append_bound)
    from Cons.IH [OF this] show ?thesis
      using a st deque_append_window [OF Cons.prems, of d "readings_for k ps"] by simp
  next
    case False
    then have st: "stored_readings ?s k = stored_readings s k"
      by (auto simp: readings_step split: option.split)
    have rf: "readings_for k (p # ps) = readings_for k ps"
      using False by (auto split: option.split)
    have "length (stored_readings ?s k) \<le> 50" using st Cons.prems by simp
    from Cons.IH [OF this] show ?thesis using st rf by simp
  qed
qed

text \<open>
  Claim C3. After any run from start-up, the readings stored for a machine are the
  last 50 of the readings received for it, in arrival order, hence never more than
  50; when 51 were received, the stored ones are those but the first.
\<close>

theorem reading_history_bounded:
  "length (stored_readings (run env msgs init) k) \<le> 50
   \<and> stored_readings (run env msgs init) k
       = drop (length (readings_for k msgs) - 50) (readings_for k msgs)
   \<and> (length (readings_for k msgs) = 51 \<longrightarrow>
        stored_readings (run env msgs init) k = tl (readings_for k msgs))
   \<and> (\<forall>ms. machine_data (run env msgs init) k = Some ms \<longrightarrow>
        length (readings ms) \<le> 50
        \<and> readings ms = drop (length (readings_for k msgs) - 50) (readings_for k msgs))"
proof -
  have "stored_readings (init :: 'a monitor) k = []" by (simp add: stored_readings_def init_def)
  then have r: "length (stored_readings (run env msgs init) k) \<le> 50
     \<and> stored_readings (run env msgs init) k
         = drop (length (readings_for k msgs) - 50) (readings_for k msgs)"
    using readings_run [of "init :: 'a monitor" k env msgs] by simp
  have "length (readings_for k msgs) = 51 \<Longrightarrow>
          drop (length (readings_for k msgs) - 50) (readings_for k msgs) = tl (readings_for k msgs)"
    by (simp add: drop_Suc)
  then show ?thesis using r by (auto simp: stored_readings_def)
qed

lemma readings_for_sim:
  "readings_for (JStr ''M'') (map (\<lambda>i. Inr (JObj (sim_reading ''M'' (JNum (real i))))) is)
     = map (\<lambda>i. sim_reading ''M'' (JNum (real i))) is"
  by (induction "is") (simp_all add: accepted_def subscript_def sim_reading_def)

theorem reading_history_bounded_witness:
  "length (readings_for (JStr ''M'') (sim_stream 51)) = 51
   \<and> stored_readings (run demo_env (sim_stream 51) init) (JStr ''M'')
       = map (\<lambda>i. sim_reading ''M'' (JNum (real i))) [1..<51]"
proof -
  have rf: "readings_for (JStr ''M'') (sim_stream 51)
      = map (\<lambda>i. sim_reading ''M'' (JNum (real i))) [0..<51]"
    unfolding sim_stream_def by (rule readings_for_sim)
  have "tl (map (\<lambda>i. sim_reading ''M'' (JNum (real i))) [0..<51])
      = map (\<lambda>i. sim_reading ''M'' (JNum (real i))) [1..<51]"
    by (simp add: upt_conv_Cons [of 0] map_tl [symmetric] del: upt_Suc)
  then show ?thesis
    using reading_history_bounded [of demo_env "sim_stream 51" "JStr ''M''"] rf
    by (simp add: drop_Suc)
qed

section \<open>The recommendation\<close>

lemma get_recommendation_advice:
  assumes "map_of data ''temperature'' = Some vt" "py_num vt = Inr t"
    and "map_of data ''vibration'' = Some vv" "py_num vv = Inr v"
    and "map_of data ''current'' = Some vc" "py_num vc = Inr c"
    and "map_of data ''rpm'' = Some vr" "py_num vr = Inr r"
  shows "get_recommendation data = Inr (advice (t > 80) (v > 4) (c > 15) (r < 1400))"
  using assms
  by (simp add: get_recommendation_def field_gt_def field_lt_def subscript_def advice_def Let_def)

lemma advice_generic:
  "advice hot shaking drawing slow = ''Monitor closely for additional anomalies''
     \<longleftrightarrow> \<not> (hot \<or> shaking \<or> drawing \<or> slow)"
  by (cases hot; cases shaking; cases drawing; cases slow) (simp_all add: advice_def)

lemma advice_temperature:
  "contains ''Temperature exceeds safe threshold'' (advice hot shaking drawing slow) \<longleftrightarrow> hot"
  by (cases hot; cases shaking; cases drawing; cases slow) (simp_all add: advice_def)

lemma advice_vibration:
  "contains ''Excessive vibration detected'' (advice hot shaking drawing slow) \<longleftrightarrow> shaking"
  by (cases hot; cases shaking; cases drawing; cases slow) (simp_all add: advice_def)

lemma advice_current:
  "contains ''High current draw'' (advice hot shaking drawing slow) \<longleftrightarrow> drawing"
  by (cases hot; cases shaking; cases drawing; cases slow) (simp_all add: advice_def)

lemma advice_rpm:
  "contains ''RPM below optimal range'' (advice hot shaking drawing slow) \<longleftrightarrow> slow"
  by (cases hot; cases shaking; cases drawing; cases slow) (simp_all add: advice_def)

lemma build_alert_recommendation:
  "build_alert env n mid data score = Inr a \<Longrightarrow> get_recommendation data = Inr (recommendation a)"
  by (auto simp: build_alert_def split: sum.splits)

text \<open>
  Claim C7. For a reading whose temperature, vibration, current and rpm are present and
  numeric, the recommendation is the text the specification describes, a function of
  the four threshold tests alone: it contains the message of a threshold exactly when
  that threshold is violated, and it is the generic text exactly when none is. The
  alert carries this text whatever the anomaly score.
\<close>

theorem recommendation_rules:
  assumes "map_of data ''temperature'' = Some vt" "py_num vt = Inr t"
    and "map_of data ''vibration'' = Some vv" "py_num vv = Inr v"
    and "map_of data ''current'' = Some vc" "py_num vc = Inr c"
    and "map_of data ''rpm'' = Some vr" "py_num vr = Inr r"
  shows "get_recommendation data = Inr (advice (t > 80) (v > 4.0) (c > 15) (r < 1400))
     \<and> (contains ''Temperature exceeds safe threshold''
           (advice (t > 80) (v > 4.0) (c > 15) (r < 1400)) \<longleftrightarrow> t > 80)
     \<and> (contains ''Excessive vibration detected''
           (advice (t > 80) (v > 4.0) (c > 15) (r < 1400)) \<longleftrightarrow> v > 4.0)
     \<and> (contains ''High current draw''
           (advice (t > 80) (v > 4.0) (c > 15) (r < 1400)) \<longleftrightarrow> c > 15)
     \<and> (contains ''RPM below optimal range''
           (advice (t > 80) (v > 4.0) (c > 15) (r < 1400)) \<longleftrightarrow> r < 1400)
     \<and> (advice (t > 80) (v > 4.0) (c > 15) (r < 1400) = ''Monitor closely for additional anomalies''
          \<longleftrightarrow> \<not> (t > 80 \<or> v > 4.0 \<or> c > 15 \<or> r < 1400))
     \<and> (build_alert env n mid data score = Inr a
          \<longrightarrow> recommendation a = advice (t > 80) (v > 4.0) (c > 15) (r < 1400))"
proof -
  have g: "get_recommendation data = Inr (advice (t > 80) (v > 4.0) (c > 15) (r < 1400))"
    using get_recommendation_advice [OF assms] by simp
  have b: "build_alert env n mid data score = Inr a
          \<longrightarrow> recommendation a = advice (t > 80) (v > 4.0) (c > 15) (r < 1400)"
    using build_alert_recommendation [of env n mid data score a] g by simp
  show ?thesis
    apply (intro conjI)
          apply (rule g)
         apply (rule advice_temperature)
        apply (rule advice_vibration)
       apply (rule advice_current)
      apply (rule advice_rpm)
     apply (rule advice_generic)
    apply (rule b)
    done
qed

lemma advice_hot: "advice True False False False
      = ''Schedule inspection: Temperature exceeds safe threshold''"
  by (simp add: advice_def)

theorem recommendation_rules_witness:
  "get_recommendation [(''temperature'', JNum 95), (''vibration'', JNum 1),
       (''current'', JNum 5), (''rpm'', JNum 1500)]
     = Inr ''Schedule inspection: Temperature exceeds safe threshold''
   \<and> contains ''Temperature exceeds safe threshold''
        ''Schedule inspection: Temperature exceeds safe threshold''
   \<and> \<not> contains ''Excessive vibration detected''
        ''Schedule inspection: Temperature exceeds safe threshold''
   \<and> \<not> contains ''High current draw''
        ''Schedule inspection: Temperature exceeds safe threshold''
   \<and> \<not> contains ''RPM below optimal range''
        ''Schedule inspection: Temperature exceeds safe threshold''"
proof -
  have m: "map_of [(''temperature'', JNum 95), (''vibration'', JNum 1),
       (''current'', JNum 5), (''rpm'', JNum 1500)] ''temperature'' = Some (JNum 95)"
    "map_of [(''temperature'', JNum 95), (''vibration'', JNum 1),
       (''current'', JNum 5), (''rpm'', JNum 1500)] ''vibration'' = Some (JNum 1)"
    "map_of [(''temperature'', JNum 95), (''vibration'', JNum 1),
       (''current'', JNum 5), (''rpm'', JNum 1500)] ''current'' = Some (JNum 5)"
    "map_of [(''temperature'', JNum 95), (''vibration'', JNum 1),
       (''current'', JNum 5), (''rpm'', JNum 1500)] ''rpm'' = Some (JNum 1500)"
    by simp_all
  have n: "py_num (JNum 95) = Inr 95" "py_num (JNum 1) = Inr 1" "py_num (JNum 5) = Inr 5"
    "py_num (JNum 1500) = Inr 1500"
    by simp_all
  have c: "((95::real) > 80) = True" "((1::real) > 4.0) = False" "((5::real) > 15) = False"
    "((1500::real) < 1400) = False"
    by simp_all
  note r = recommendation_rules [OF m(1) n(1) m(2) n(2) m(3) n(3) m(4) n(4),
      of demo_env 1 JNull 0 undefined, unfolded c advice_hot]
  show ?thesis
    using r by (simp only: simp_thms)
qed

section \<open>Concrete runs\<close>

lemmas step_defs = on_message_def process_sensor_data_def subscript_def store_reading_def
  collect_training_def score_reading_def train_model_def detect_anomaly_def handle_anomaly_def
  build_alert_def log_normal_operation_def get_recommendation_def field_gt_def field_lt_def
  extract_features_def dict_get_def deque_append_def min_training_samples_def
  calculate_severity_def Let_def

lemma collecting_step:
  "n < 29 \<Longrightarrow> on_message env (Inr (JObj (sim_reading ''M'' t))) (collecting n t)
     = collecting (Suc n) t"
  by (simp add: step_defs collecting_def sim_reading_def replicate_append_same)

lemma collecting_run:
  "n \<le> 29 \<Longrightarrow> run env (replicate n (Inr (JObj (sim_reading ''M'' t)))) init = collecting n t"
proof (induction n)
  case 0
  then show ?case by (simp add: collecting_def init_def)
next
  case (Suc n)
  let ?p = "Inr (JObj (sim_reading ''M'' t)) :: error + jvalue"
  have "replicate (Suc n) ?p = replicate n ?p @ [?p]"
    by (simp add: replicate_append_same)
  then have "run env (replicate (Suc n) ?p) init
      = on_message env ?p (run env (replicate n ?p) init)"
    by (simp only: run_snoc)
  also have "\<dots> = on_message env ?p (collecting n t)"
    using Suc by simp
  also have "\<dots> = collecting (Suc n) t"
    using Suc.prems by (simp add: collecting_step)
  finally show ?case .
qed

section \<open>Training happens when the model is not trained, and only then\<close>

lemma counts_append:
  "train_model_calls (s\<lparr>stdout := stdout s @ ls\<rparr>)
     = train_model_calls s + length (filter (\<lambda>l. l = TrainingBanner) ls)
   \<and> models_fitted (s\<lparr>stdout := stdout s @ ls\<rparr>)
     = models_fitted s + length (filter is_model_trained_line ls)"
  by (simp add: train_model_calls_def models_fitted_def)

lemma train_model_counts:
  "train_model_calls (snd (train_model env s)) = train_model_calls s + 1
   \<and> models_fitted (snd (train_model env s))
       = models_fitted s + (case fit env (training_data s) of Inl e \<Rightarrow> 0 | Inr m \<Rightarrow> 1)
   \<and> model_trained (snd (train_model env s))
       = (model_trained s \<or> (\<exists>m. fit env (training_data s) = Inr m))"
  by (simp add: train_model_def Let_def train_model_calls_def models_fitted_def
      split: sum.split option.split)

lemma log_normal_operation_counts:
  "train_model_calls (snd (log_normal_operation mid data s)) = train_model_calls s
   \<and> models_fitted (snd (log_normal_operation mid data s)) = models_fitted s"
  by (simp add: log_normal_operation_def train_model_calls_def models_fitted_def split: sum.split)

lemma handle_anomaly_counts:
  "train_model_calls (snd (handle_anomaly env mid data score s)) = train_model_calls s
   \<and> models_fitted (snd (handle_anomaly env mid data score s)) = models_fitted s"
  by (simp add: handle_anomaly_def Let_def train_model_calls_def models_fitted_def
      split: sum.split option.split jvalue.split)

lemma score_reading_counts:
  "train_model_calls (snd (score_reading env mid data f s)) = train_model_calls s
   \<and> models_fitted (snd (score_reading env mid data f s)) = models_fitted s"
  by (simp add: score_reading_def handle_anomaly_counts log_normal_operation_counts
      split: sum.split prod.split)

lemma finish_counts:
  "train_model_calls (finish r) = train_model_calls (snd r)
   \<and> models_fitted (finish r) = models_fitted (snd r)"
  by (simp add: finish_def train_model_calls_def models_fitted_def split: prod.split sum.split)

lemma store_reading_counts:
  "train_model_calls (store_reading k d (s\<lparr>total_readings := n\<rparr>)) = train_model_calls s
   \<and> models_fitted (store_reading k d (s\<lparr>total_readings := n\<rparr>)) = models_fitted s"
  by (simp add: store_reading_def Let_def train_model_calls_def models_fitted_def)

text \<open>Whether this call of \<open>collect_training\<close> enters \<open>train_model\<close>, and with what outcome.\<close>

lemma collect_training_counts:
  assumes "\<not> model_trained s"
  shows "train_model_calls (snd (collect_training env f s))
       = train_model_calls s + (if min_training_samples \<le> length (training_data s @ [f]) then 1 else 0)
   \<and> models_fitted (snd (collect_training env f s))
       = models_fitted s + (if model_trained (snd (collect_training env f s)) then 1 else 0)
   \<and> (train_model_calls (snd (collect_training env f s)) \<noteq> train_model_calls s
        \<and> \<not> model_trained (snd (collect_training env f s))
        \<longrightarrow> (\<exists>e. fit env (training_data s @ [f]) = Inl e))"
proof (cases "min_training_samples \<le> length (training_data s @ [f])")
  case True
  let ?s1 = "s\<lparr>training_data := training_data s @ [f]\<rparr>"
  have c: "collect_training env f s = train_model env ?s1"
    using assms True by (simp add: collect_training_def Let_def)
  have "train_model_calls ?s1 = train_model_calls s" "models_fitted ?s1 = models_fitted s"
    by (simp_all add: train_model_calls_def models_fitted_def)
  then show ?thesis
    using train_model_counts [of env ?s1] assms True c
    by (cases "fit env (training_data s @ [f])") simp_all
next
  case False
  then have "collect_training env f s = (Inr (), s\<lparr>training_data := training_data s @ [f]\<rparr>)"
    using assms by (simp add: collect_training_def Let_def)
  then show ?thesis using False assms
    by (simp add: train_model_calls_def models_fitted_def)
qed

lemma phases_counts:
  assumes "\<not> model_trained s"
  shows "train_model_calls (snd (phases env mid k d s))
       = train_model_calls s + (if min_training_samples \<le> length (training_data s) + 1 then 1 else 0)
   \<and> models_fitted (snd (phases env mid k d s))
       = models_fitted s + (if model_trained (snd (phases env mid k d s)) then 1 else 0)
   \<and> (train_model_calls (snd (phases env mid k d s)) \<noteq> train_model_calls s
        \<and> \<not> model_trained (snd (phases env mid k d s))
        \<longrightarrow> (\<exists>e. fit env (training_data s @ [extract_features d]) = Inl e))
   \<and> (model_trained (snd (phases env mid k d s))
        \<longrightarrow> train_model_calls (snd (phases env mid k d s)) = train_model_calls s + 1)"
proof -
  let ?s2 = "store_reading k d (s\<lparr>total_readings := total_readings s + 1\<rparr>)"
  let ?f = "extract_features d"
  obtain r s3 where c: "collect_training env ?f ?s2 = (r, s3)" by (cases "collect_training env ?f ?s2")
  have s2: "\<not> model_trained ?s2" "training_data ?s2 = training_data s"
    "train_model_calls ?s2 = train_model_calls s" "models_fitted ?s2 = models_fitted s"
    using assms by (simp_all add: store_reading_frame store_reading_counts)
  note ct = collect_training_counts [OF s2(1), of env ?f, unfolded c s2 snd_conv]
  have res: "train_model_calls (snd (phases env mid k d s)) = train_model_calls s3
     \<and> models_fitted (snd (phases env mid k d s)) = models_fitted s3
     \<and> model_trained (snd (phases env mid k d s)) = model_trained s3"
    using c by (cases r) (simp_all add: phases_def score_reading_counts score_reading_frame)
  note cu = collect_training_untrained [OF s2(1), of env ?f, unfolded c s2 snd_conv]
  show ?thesis using ct cu res by simp
qed

lemma training_step:
  "train_model_calls s \<le> train_model_calls (on_message env p s)
   \<and> train_model_calls (on_message env p s) \<le> train_model_calls s + 1
   \<and> models_fitted (on_message env p s)
       = models_fitted s + (if model_trained (on_message env p s) \<and> \<not> model_trained s then 1 else 0)
   \<and> (model_trained s \<longrightarrow> train_model_calls (on_message env p s) = train_model_calls s)
   \<and> (model_trained (on_message env p s) \<and> \<not> model_trained s
        \<longrightarrow> train_model_calls (on_message env p s) = train_model_calls s + 1)
   \<and> (train_model_calls (on_message env p s) \<noteq> train_model_calls s
        \<and> \<not> model_trained (on_message env p s) \<longrightarrow> (\<exists>X e. fit env X = Inl e))"
proof (cases p rule: on_message_cases)
  case rejected
  obtain e where "stdout (on_message env p s) = stdout s @ [ErrorProcessing e]"
    using on_message_rejected [OF rejected, of env s] by blast
  then show ?thesis using on_message_rejected [OF rejected, of env s]
    by (simp add: train_model_calls_def models_fitted_def)
next
  case (accepted mid k d)
  show ?thesis
  proof (cases "model_trained s")
    case True
    have "phases env mid k d s = score_reading env mid d (extract_features d)
          (store_reading k d (s\<lparr>total_readings := total_readings s + 1\<rparr>))"
      by (rule phases_trained_eq [OF True])
    then show ?thesis using True accepted phases_trained [OF True, of env mid k d]
      by (simp add: on_message_phases finish_counts finish_fields score_reading_counts
          store_reading_counts)
  next
    case False
    show ?thesis using False accepted phases_counts [OF False, of env mid k d]
      by (auto simp: on_message_phases finish_counts finish_fields)
  qed
qed

lemma train_model_model:
  "model (snd (train_model env s))
     = (case fit env (training_data s) of Inl e \<Rightarrow> model s | Inr m \<Rightarrow> Some m)"
  by (simp add: train_model_def Let_def split: sum.split option.split)

lemma collect_training_outcome:
  assumes "\<not> model_trained s"
  shows "(model_trained (snd (collect_training env f s))
          \<longleftrightarrow> min_training_samples \<le> length (training_data s) + 1
              \<and> (\<exists>m. fit env (training_data s @ [f]) = Inr m))
     \<and> (\<forall>m. min_training_samples \<le> length (training_data s) + 1
             \<and> fit env (training_data s @ [f]) = Inr m
           \<longrightarrow> model (snd (collect_training env f s)) = Some m)"
  using assms
  by (simp add: collect_training_def Let_def train_model_counts train_model_model)

lemma phases_outcome:
  assumes "\<not> model_trained s"
  shows "training_data (snd (phases env mid k d s)) = training_data s @ [extract_features d]
     \<and> (model_trained (snd (phases env mid k d s))
          \<longleftrightarrow> min_training_samples \<le> length (training_data s) + 1
              \<and> (\<exists>m. fit env (training_data s @ [extract_features d]) = Inr m))
     \<and> (\<forall>m. min_training_samples \<le> length (training_data s) + 1
             \<and> fit env (training_data s @ [extract_features d]) = Inr m
           \<longrightarrow> model (snd (phases env mid k d s)) = Some m)"
proof -
  let ?s2 = "store_reading k d (s\<lparr>total_readings := total_readings s + 1\<rparr>)"
  let ?f = "extract_features d"
  obtain r s3 where c: "collect_training env ?f ?s2 = (r, s3)" by (cases "collect_training env ?f ?s2")
  have s2: "\<not> model_trained ?s2" "training_data ?s2 = training_data s"
    using assms by (simp_all add: store_reading_frame)
  note co = collect_training_outcome [OF s2(1), of env ?f, unfolded c s2 snd_conv]
  note cu = collect_training_untrained [OF s2(1), of env ?f, unfolded c s2 snd_conv]
  have res: "training_data (snd (phases env mid k d s)) = training_data s3
     \<and> model (snd (phases env mid k d s)) = model s3
     \<and> model_trained (snd (phases env mid k d s)) = model_trained s3"
    using c by (cases r) (simp_all add: phases_def score_reading_frame)
  show ?thesis using co cu res by simp
qed

text \<open>A reading that arrives while the model is not trained.\<close>

lemma collecting_reading_step:
  assumes "\<not> model_trained s" "accepted p = Some (mid, k, d)"
  shows "training_data (on_message env p s) = training_data s @ [extract_features d]
     \<and> train_model_calls (on_message env p s)
         = train_model_calls s
           + (if min_training_samples \<le> length (training_data s) + 1 then 1 else 0)
     \<and> (model_trained (on_message env p s)
          \<longleftrightarrow> min_training_samples \<le> length (training_data s) + 1
              \<and> (\<exists>m. fit env (training_data s @ [extract_features d]) = Inr m))
     \<and> models_fitted (on_message env p s)
         = models_fitted s + (if model_trained (on_message env p s) then 1 else 0)
     \<and> (\<forall>m. min_training_samples \<le> length (training_data s) + 1
             \<and> fit env (training_data s @ [extract_features d]) = Inr m
           \<longrightarrow> model (on_message env p s) = Some m)"
  using phases_outcome [OF assms(1), of env mid k d] phases_counts [OF assms(1), of env mid k d]
  by (simp add: on_message_phases [OF assms(2)] finish_fields finish_counts)

lemma features_of_append: "features_of (xs @ ys) = features_of xs @ features_of ys"
  by (induction xs) (simp_all split: option.split)

lemma training_inv_step:
  assumes "training_inv env fs s"
  shows "training_inv env (fs @ features_of [p]) (on_message env p s)"
proof -
  let ?s' = "on_message env p s"
  obtain n where n: "n \<le> length fs" "training_data s = take n fs"
    "train_model_calls s = n + 1 - min_training_samples"
    "\<forall>j. min_training_samples \<le> j \<and> j < n \<longrightarrow> (\<exists>e. fit env (take j fs) = Inl e)"
    "model_trained s \<Longrightarrow>
       min_training_samples \<le> n \<and> (\<exists>m. fit env (take n fs) = Inr m \<and> model s = Some m)"
    "\<not> model_trained s \<Longrightarrow>
       n = length fs \<and> (min_training_samples \<le> n \<longrightarrow> (\<exists>e. fit env (take n fs) = Inl e))"
    and mf: "models_fitted s = (if model_trained s then 1 else 0)"
    using assms unfolding training_inv_def by (auto split: if_splits)
  show ?thesis
  proof (cases "model_trained s")
    case True
    have st: "model_trained ?s'" "model ?s' = model s" "training_data ?s' = training_data s"
      "train_model_calls ?s' = train_model_calls s" "models_fitted ?s' = models_fitted s"
      using trained_step [OF True, of env p] training_step [of s env p] True by simp_all
    have "n \<le> length (fs @ features_of [p]) \<and> training_data ?s' = take n (fs @ features_of [p])
        \<and> train_model_calls ?s' = n + 1 - min_training_samples
        \<and> (\<forall>j. min_training_samples \<le> j \<and> j < n
              \<longrightarrow> (\<exists>e. fit env (take j (fs @ features_of [p])) = Inl e))
        \<and> min_training_samples \<le> n
        \<and> (\<exists>m. fit env (take n (fs @ features_of [p])) = Inr m \<and> model ?s' = Some m)"
      using n(1-4) n(5) [OF True] st by simp
    then show ?thesis
      unfolding training_inv_def using st(1,5) mf True by auto
  next
    case False
    have u: "n = length fs"
      "min_training_samples \<le> length fs \<longrightarrow> (\<exists>e. fit env fs = Inl e)"
      using n(6) [OF False] by auto
    have td: "training_data s = fs" using n(2) u by simp
    show ?thesis
    proof (cases p rule: on_message_cases)
      case rejected
      obtain e where e: "stdout ?s' = stdout s @ [ErrorProcessing e]"
        using on_message_rejected [OF rejected, of env s] by blast
      have st: "\<not> model_trained ?s'" "training_data ?s' = fs"
        "train_model_calls ?s' = train_model_calls s" "models_fitted ?s' = models_fitted s"
        using on_message_rejected [OF rejected, of env s] False td e
        by (simp_all add: train_model_calls_def models_fitted_def)
      have fo: "features_of [p] = []" using rejected by simp
      have "length fs \<le> length fs \<and> training_data ?s' = take (length fs) fs
        \<and> train_model_calls ?s' = length fs + 1 - min_training_samples
        \<and> (\<forall>j. min_training_samples \<le> j \<and> j < length fs \<longrightarrow> (\<exists>e. fit env (take j fs) = Inl e))
        \<and> (min_training_samples \<le> length fs \<longrightarrow> (\<exists>e. fit env (take (length fs) fs) = Inl e))"
        using n(3,4) u st by auto
      then show ?thesis
        unfolding training_inv_def fo using st(1,4) mf False by auto
    next
      case (accepted mid k d)
      let ?f = "extract_features d"
      let ?fs = "fs @ [?f]"
      have fo: "features_of [p] = [?f]" using accepted by simp
      note cs = collecting_reading_step [OF False accepted, of env, unfolded td]
      have td': "training_data ?s' = take (length ?fs) ?fs" using cs by simp
      have calls: "train_model_calls ?s' = length ?fs + 1 - min_training_samples"
        using cs n(3) u by (auto simp: min_training_samples_def)
      have earlier: "\<exists>e. fit env (take j ?fs) = Inl e"
        if "min_training_samples \<le> j" "j < length ?fs" for j
      proof (cases "j < length fs")
        case True
        then show ?thesis using n(4) u that(1) by simp
      next
        case False
        then have "j = length fs" using that(2) by simp
        then show ?thesis using u that(1) by simp
      qed
      have mfs: "models_fitted ?s' = (if model_trained ?s' then 1 else 0)"
        using cs mf False by simp
      have last: "if model_trained ?s'
          then min_training_samples \<le> length ?fs
               \<and> (\<exists>m. fit env (take (length ?fs) ?fs) = Inr m \<and> model ?s' = Some m)
          else length ?fs = length ?fs
               \<and> (min_training_samples \<le> length ?fs
                    \<longrightarrow> (\<exists>e. fit env (take (length ?fs) ?fs) = Inl e))"
      proof (cases "model_trained ?s'")
        case True
        then show ?thesis using cs by auto
      next
        case False
        then show ?thesis using cs by (cases "fit env ?fs") auto
      qed
      show ?thesis
        unfolding training_inv_def fo
        using mfs td' calls earlier last by (intro conjI exI [of _ "length ?fs"]) auto
    qed
  qed
qed

lemma training_inv_run:
  "training_inv env fs s \<Longrightarrow> training_inv env (fs @ features_of ps) (run env ps s)"
proof (induction ps arbitrary: fs s)
  case Nil
  then show ?case by simp
next
  case (Cons p ps)
  have "features_of (p # ps) = features_of [p] @ features_of ps"
    using features_of_append [of "[p]" ps] by simp
  then show ?case
    using Cons.IH [OF training_inv_step [OF Cons.prems, of p]] by simp
qed

lemma trained_run:
  "model_trained s \<Longrightarrow>
     model_trained (run env ps s) \<and> model (run env ps s) = model s
     \<and> training_data (run env ps s) = training_data s
     \<and> train_model_calls (run env ps s) = train_model_calls s
     \<and> models_fitted (run env ps s) = models_fitted s"
proof (induction ps arbitrary: s)
  case Nil
  then show ?case by simp
next
  case (Cons p ps)
  have "model_trained (on_message env p s)" using trained_step [OF Cons.prems, of env p] by simp
  from Cons.IH [OF this] show ?case
    using trained_step [OF Cons.prems, of env p] training_step [of s env p] Cons.prems by simp
qed

lemma training_inv_init: "training_inv env [] init"
  by (simp add: training_inv_def init_def models_fitted_def train_model_calls_def
      min_training_samples_def)

lemma training_inv_reached: "training_inv env (features_of msgs) (run env msgs init)"
  using training_inv_run [OF training_inv_init, of env msgs] by simp

text \<open>
  Claim C2, as amended. In one process lifetime at most one model is fitted; once
  \<open>model_trained\<close> is true, no later message appends to \<open>training_data\<close>, enters
  \<open>train_model\<close> or changes the model. While the model is not trained, the training
  data are the feature vectors of all the readings received, \<open>train_model\<close> has been
  entered once for each reading from the thirtieth on, and each of those fits raised;
  so \<open>train_model\<close> is entered at most once in a run where fitting the first thirty
  vectors does not raise. A reading that arrives while the model is not trained appends
  its features, enters \<open>train_model\<close> when thirty samples at least are then held, and
  leaves the model trained exactly when that fit returns.
\<close>

theorem model_fitted_at_most_once:
  fixes env :: "('m, 'x) env"
  shows "models_fitted (run env msgs init) \<le> 1
   \<and> (model_trained (run env msgs init) \<longrightarrow>
         model_trained (run env later (run env msgs init))
         \<and> training_data (run env later (run env msgs init)) = training_data (run env msgs init)
         \<and> train_model_calls (run env later (run env msgs init))
             = train_model_calls (run env msgs init)
         \<and> models_fitted (run env later (run env msgs init)) = 1
         \<and> model (run env later (run env msgs init)) = model (run env msgs init))
   \<and> (\<not> model_trained (run env msgs init) \<longrightarrow>
         training_data (run env msgs init) = features_of msgs
         \<and> train_model_calls (run env msgs init)
             = length (features_of msgs) + 1 - min_training_samples
         \<and> (\<forall>j. min_training_samples \<le> j \<and> j \<le> length (features_of msgs)
               \<longrightarrow> (\<exists>e. fit env (take j (features_of msgs)) = Inl e)))
   \<and> ((\<forall>e. fit env (take min_training_samples (features_of msgs)) \<noteq> Inl e)
         \<longrightarrow> train_model_calls (run env msgs init) \<le> 1)
   \<and> (\<forall>p mid k d.
         \<not> model_trained (run env msgs init) \<and> accepted p = Some (mid, k, d) \<longrightarrow>
           training_data (on_message env p (run env msgs init))
             = training_data (run env msgs init) @ [extract_features d]
           \<and> train_model_calls (on_message env p (run env msgs init))
               = train_model_calls (run env msgs init)
                 + (if min_training_samples \<le> length (training_data (run env msgs init)) + 1
                    then 1 else 0)
           \<and> (model_trained (on_message env p (run env msgs init))
                \<longleftrightarrow> min_training_samples \<le> length (training_data (run env msgs init)) + 1
                    \<and> (\<exists>m. fit env (training_data (run env msgs init) @ [extract_features d])
                            = Inr m)))"
proof -
  let ?s = "run env msgs init"
  let ?fs = "features_of msgs"
  obtain n where n: "n \<le> length ?fs" "training_data ?s = take n ?fs"
    "train_model_calls ?s = n + 1 - min_training_samples"
    "\<forall>j. min_training_samples \<le> j \<and> j < n \<longrightarrow> (\<exists>e. fit env (take j ?fs) = Inl e)"
    "model_trained ?s \<Longrightarrow>
       min_training_samples \<le> n \<and> (\<exists>m. fit env (take n ?fs) = Inr m \<and> model ?s = Some m)"
    "\<not> model_trained ?s \<Longrightarrow>
       n = length ?fs \<and> (min_training_samples \<le> n \<longrightarrow> (\<exists>e. fit env (take n ?fs) = Inl e))"
    and mf: "models_fitted ?s = (if model_trained ?s then 1 else 0)"
    using training_inv_reached [of env msgs] unfolding training_inv_def
    by (auto split: if_splits)
  have c1: "models_fitted ?s \<le> 1" using mf by simp
  have c2: "model_trained (run env later ?s)
         \<and> training_data (run env later ?s) = training_data ?s
         \<and> train_model_calls (run env later ?s) = train_model_calls ?s
         \<and> models_fitted (run env later ?s) = 1
         \<and> model (run env later ?s) = model ?s" if "model_trained ?s"
    using trained_run [OF that, of env later] mf that by simp
  have c3: "training_data ?s = ?fs
         \<and> train_model_calls ?s = length ?fs + 1 - min_training_samples
         \<and> (\<forall>j. min_training_samples \<le> j \<and> j \<le> length ?fs
               \<longrightarrow> (\<exists>e. fit env (take j ?fs) = Inl e))" if "\<not> model_trained ?s"
  proof -
    note u = n(6) [OF that]
    have "\<exists>e. fit env (take j ?fs) = Inl e" if "min_training_samples \<le> j" "j \<le> length ?fs" for j
      using n(4) u that by (cases "j = length ?fs") auto
    then show ?thesis using n(2,3) u by simp
  qed
  have c4: "train_model_calls ?s \<le> 1"
    if h: "\<forall>e. fit env (take min_training_samples ?fs) \<noteq> Inl e"
  proof (cases "model_trained ?s")
    case True
    have "\<not> min_training_samples < n" using n(4) h by auto
    then have "n = min_training_samples" using n(5) [OF True] by simp
    then show ?thesis using n(3) by simp
  next
    case False
    note u = n(6) [OF False]
    have "\<not> min_training_samples < n" using n(4) h by auto
    moreover have "n \<noteq> min_training_samples" using u h by auto
    ultimately show ?thesis using n(3) by simp
  qed
  have c5: "training_data (on_message env p ?s) = training_data ?s @ [extract_features d]
           \<and> train_model_calls (on_message env p ?s)
               = train_model_calls ?s
                 + (if min_training_samples \<le> length (training_data ?s) + 1 then 1 else 0)
           \<and> (model_trained (on_message env p ?s)
                \<longleftrightarrow> min_training_samples \<le> length (training_data ?s) + 1
                    \<and> (\<exists>m. fit env (training_data ?s @ [extract_features d]) = Inr m))"
    if "\<not> model_trained ?s \<and> accepted p = Some (mid, k, d)" for p mid k d
    using collecting_reading_step [of ?s p mid k d env] that by blast
  show ?thesis
    using c1 c2 c3 c4 c5 by blast
qed

lemma run_replicate_Suc:
  "run env (replicate (Suc n) p) s = on_message env p (run env (replicate n p) s)"
proof -
  have "replicate (Suc n) p = replicate n p @ [p]"
    by (simp add: replicate_append_same)
  then show ?thesis by (simp only: run_snoc)
qed

lemma replicate_30: "replicate 30 x = x # replicate 29 x"
proof -
  have "(30::nat) = Suc 29" by simp
  then show ?thesis by (simp only: replicate_Suc)
qed

lemma list_all_replicate: "list_all P (replicate n x) \<longleftrightarrow> n = 0 \<or> P x"
  by (induction n) auto

lemma run_thirty:
  "run env (replicate 30 (Inr (JObj (sim_reading ''M'' t)))) init
     = on_message env (Inr (JObj (sim_reading ''M'' t))) (collecting 29 t)"
proof -
  have "run env (replicate (Suc 29) (Inr (JObj (sim_reading ''M'' t)))) init
     = on_message env (Inr (JObj (sim_reading ''M'' t))) (collecting 29 t)"
    by (simp only: run_replicate_Suc collecting_run [of 29, simplified])
  then show ?thesis by simp
qed

lemma thirty_cool:
  "run demo_env (replicate 30 (Inr (JObj (sim_reading ''M'' (JNum 65))))) init
     = (collecting 30 (JNum 65))
         \<lparr>model := Some (), model_trained := True,
          stdout := [TrainingBanner, ModelTrained 30, ModelSaved,
                     NormalOperation (JStr ''M'') 65 2 10]\<rparr>"
  unfolding run_thirty
  by (simp add: step_defs collecting_def sim_reading_def demo_env_def demo_predict_def
        replicate_append_same replicate_30 list_all_replicate)

lemma sim_reading_accepted:
  "accepted (Inr (JObj (sim_reading ''M'' t))) = Some (JStr ''M'', JStr ''M'', sim_reading ''M'' t)"
  "extract_features (sim_reading ''M'' t) = [t, JNum 2, JNum 10, JNum 6, JNum 1500]"
  by (simp_all add: accepted_def subscript_def sim_reading_def extract_features_def dict_get_def)

lemma features_of_sim:
  "features_of (replicate n (Inr (JObj (sim_reading ''M'' t))))
     = replicate n [t, JNum 2, JNum 10, JNum 6, JNum 1500]"
  by (induction n) (simp_all add: sim_reading_accepted)

theorem model_fitted_at_most_once_witness:
  "model_trained (run demo_env (replicate 30 (Inr (JObj (sim_reading ''M'' (JNum 65))))) init)
   \<and> training_data (run demo_env [Inr (JObj (sim_reading ''M'' (JNum 120)))]
        (run demo_env (replicate 30 (Inr (JObj (sim_reading ''M'' (JNum 65))))) init))
       = replicate 30 [JNum 65, JNum 2, JNum 10, JNum 6, JNum 1500]
   \<and> train_model_calls (run demo_env [Inr (JObj (sim_reading ''M'' (JNum 120)))]
        (run demo_env (replicate 30 (Inr (JObj (sim_reading ''M'' (JNum 65))))) init)) = 1
   \<and> (\<forall>e. fit demo_env (take min_training_samples
              (features_of (replicate 30 (Inr (JObj (sim_reading ''M'' (JNum 65))))))) \<noteq> Inl e)
   \<and> train_model_calls
        (run demo_env (replicate 30 (Inr (JObj (sim_reading ''M'' (JNum 65))))) init) \<le> 1
   \<and> \<not> model_trained
        (run demo_env (replicate 29 (Inr (JObj (sim_reading ''M'' (JStr ''hot''))))) init)
   \<and> train_model_calls
        (run demo_env (replicate 29 (Inr (JObj (sim_reading ''M'' (JStr ''hot''))))) init) = 0
   \<and> accepted (Inr (JObj (sim_reading ''M'' (JStr ''hot''))))
       = Some (JStr ''M'', JStr ''M'', sim_reading ''M'' (JStr ''hot''))
   \<and> train_model_calls (on_message demo_env (Inr (JObj (sim_reading ''M'' (JStr ''hot''))))
        (run demo_env (replicate 29 (Inr (JObj (sim_reading ''M'' (JStr ''hot''))))) init)) = 1
   \<and> \<not> model_trained (on_message demo_env (Inr (JObj (sim_reading ''M'' (JStr ''hot''))))
        (run demo_env (replicate 29 (Inr (JObj (sim_reading ''M'' (JStr ''hot''))))) init))
   \<and> length (training_data (on_message demo_env (Inr (JObj (sim_reading ''M'' (JStr ''hot''))))
        (run demo_env (replicate 29 (Inr (JObj (sim_reading ''M'' (JStr ''hot''))))) init))) = 30"
proof -
  let ?cool = "replicate 30 (Inr (JObj (sim_reading ''M'' (JNum 65)))) :: (error + jvalue) list"
  let ?hot = "replicate 29 (Inr (JObj (sim_reading ''M'' (JStr ''hot'')))) :: (error + jvalue) list"
  let ?p = "Inr (JObj (sim_reading ''M'' (JStr ''hot''))) :: error + jvalue"
  let ?U = "run demo_env ?hot init"
  have t: "model_trained (run demo_env ?cool init)"
    "training_data (run demo_env ?cool init)
       = replicate 30 [JNum 65, JNum 2, JNum 10, JNum 6, JNum 1500]"
    "train_model_calls (run demo_env ?cool init) = 1"
    by (simp_all add: thirty_cool collecting_def train_model_calls_def)
  have h: "\<forall>e. fit demo_env (take min_training_samples (features_of ?cool)) \<noteq> Inl e"
    unfolding features_of_sim
    by (simp add: demo_env_def min_training_samples_def list_all_replicate)
  have u: "?U = collecting 29 (JStr ''hot'')"
    by (rule collecting_run) simp
  have us: "\<not> model_trained ?U"
    "training_data ?U = replicate 29 [JStr ''hot'', JNum 2, JNum 10, JNum 6, JNum 1500]"
    unfolding u by (simp_all add: collecting_def)
  have raises: "\<not> (\<exists>m. fit demo_env
       (training_data ?U @ [extract_features (sim_reading ''M'' (JStr ''hot''))]) = Inr m)"
    unfolding us(2) sim_reading_accepted(2) by (simp add: demo_env_def)
  note cool = model_fitted_at_most_once [of demo_env ?cool
      "[Inr (JObj (sim_reading ''M'' (JNum 120)))]"]
  note hot = model_fitted_at_most_once [of demo_env ?hot]
  have a: "training_data (run demo_env [Inr (JObj (sim_reading ''M'' (JNum 120)))]
        (run demo_env ?cool init)) = replicate 30 [JNum 65, JNum 2, JNum 10, JNum 6, JNum 1500]"
    "train_model_calls (run demo_env [Inr (JObj (sim_reading ''M'' (JNum 120)))]
        (run demo_env ?cool init)) = 1"
    "train_model_calls (run demo_env ?cool init) \<le> 1"
    using cool t h by simp_all
  have b0: "train_model_calls ?U = length (features_of ?hot) + 1 - min_training_samples"
    using hot us(1) by blast
  have b: "train_model_calls ?U = 0"
    unfolding b0 features_of_sim by (simp add: min_training_samples_def)
  have c0: "training_data (on_message demo_env ?p ?U)
             = training_data ?U @ [extract_features (sim_reading ''M'' (JStr ''hot''))]
      \<and> train_model_calls (on_message demo_env ?p ?U)
          = train_model_calls ?U
            + (if min_training_samples \<le> length (training_data ?U) + 1 then 1 else 0)
      \<and> (model_trained (on_message demo_env ?p ?U)
           \<longleftrightarrow> min_training_samples \<le> length (training_data ?U) + 1
               \<and> (\<exists>m. fit demo_env
                    (training_data ?U @ [extract_features (sim_reading ''M'' (JStr ''hot''))])
                       = Inr m))"
    using hot us(1) sim_reading_accepted(1) [of "JStr ''hot''"] by blast
  have c: "train_model_calls (on_message demo_env ?p ?U) = 1"
    "\<not> model_trained (on_message demo_env ?p ?U)"
    "length (training_data (on_message demo_env ?p ?U)) = 30"
    using c0 raises b by (simp_all add: us(2) min_training_samples_def)
  show ?thesis
    using t(1) a h us(1) b sim_reading_accepted(1) [of "JStr ''hot''"] c by simp
qed

text \<open>
  Thirty-one readings whose temperature is the string "hot": fitting raises at the
  thirtieth and again at the thirty-first.
\<close>

theorem train_model_entered_twice:
  "train_model_calls
     (run demo_env (replicate 31 (Inr (JObj (sim_reading ''M'' (JStr ''hot''))))) init) = 2
   \<and> \<not> model_trained
     (run demo_env (replicate 31 (Inr (JObj (sim_reading ''M'' (JStr ''hot''))))) init)"
proof -
  let ?p = "Inr (JObj (sim_reading ''M'' (JStr ''hot''))) :: error + jvalue"
  have "run demo_env (replicate (Suc 30) ?p) init
      = on_message demo_env ?p (on_message demo_env ?p (collecting 29 (JStr ''hot'')))"
    by (simp only: run_replicate_Suc run_thirty)
  then have "run demo_env (replicate 31 ?p) init
      = on_message demo_env ?p (on_message demo_env ?p (collecting 29 (JStr ''hot'')))"
    by simp
  then show ?thesis
    by (simp add: step_defs collecting_def sim_reading_def demo_env_def
        train_model_calls_def list_all_replicate)
qed

section \<open>Handling an anomaly\<close>

lemma build_alert_id:
  "build_alert env n mid data score = Inr a \<Longrightarrow> alert_id a = ''ALERT_'' @ format_04d n"
  by (auto simp: build_alert_def split: sum.splits)

lemma build_alert_missing:
  assumes "key \<in> set alert_keys" "map_of data key = None"
  shows "\<exists>missing. build_alert env n mid data score = Inl (KeyError (JStr missing))
           \<and> missing \<in> set alert_keys \<and> map_of data missing = None"
proof -
  have "map_of data ''timestamp'' = None \<or> map_of data ''temperature'' = None
      \<or> map_of data ''vibration'' = None \<or> map_of data ''current'' = None
      \<or> map_of data ''pressure'' = None \<or> map_of data ''rpm'' = None"
    using assms by (auto simp: alert_keys_def)
  then show ?thesis
    by (cases "map_of data ''timestamp''"; cases "map_of data ''temperature''";
        cases "map_of data ''vibration''"; cases "map_of data ''current''";
        cases "map_of data ''pressure''"; cases "map_of data ''rpm''")
      (simp_all add: build_alert_def subscript_def alert_keys_def)
qed

lemma is_num_py_num: "is_num v \<Longrightarrow> \<exists>r. py_num v = Inr r"
  by (cases v) simp_all

lemma build_alert_complete:
  assumes "complete data"
  shows "\<exists>a. build_alert env n mid data score = Inr a"
proof -
  obtain ts t v c p r where m: "map_of data ''timestamp'' = Some ts"
    "map_of data ''temperature'' = Some t" "map_of data ''vibration'' = Some v"
    "map_of data ''current'' = Some c" "map_of data ''pressure'' = Some p"
    "map_of data ''rpm'' = Some r"
    using assms by (auto simp: complete_def alert_keys_def)
  then have "is_num t" "is_num v" "is_num c" "is_num r"
    using assms by (simp_all add: complete_def)
  then obtain tr vr cr rr where n: "py_num t = Inr tr" "py_num v = Inr vr" "py_num c = Inr cr"
    "py_num r = Inr rr"
    by (meson is_num_py_num)
  have "\<exists>advised. get_recommendation data = Inr advised"
    using get_recommendation_advice [OF m(2) n(1) m(3) n(2) m(4) n(3) m(6) n(4)] by simp
  then show ?thesis using m
    by (auto simp: build_alert_def subscript_def)
qed

lemma handle_anomaly_raised:
  "build_alert env (anomalies_detected s + 1) mid data score = Inl e \<Longrightarrow>
     handle_anomaly env mid data score s
       = (Inl e, s\<lparr>anomalies_detected := anomalies_detected s + 1\<rparr>)"
  by (simp add: handle_anomaly_def Let_def)

lemma handle_anomaly_stored:
  assumes "build_alert env (anomalies_detected s + 1) mid data score = Inr a"
    and "dict_key mid = Inr k" "machine_data s k = Some ms"
  shows "alert_history (snd (handle_anomaly env mid data score s)) = alert_history s @ [a]
   \<and> machine_data (snd (handle_anomaly env mid data score s))
       = (machine_data s)(k \<mapsto> ms\<lparr>alerts := alerts ms @ [a]\<rparr>)
   \<and> published (snd (handle_anomaly env mid data score s))
       = published s @ (if mqtt_publish env a = None then [a] else [])"
  using assms
  by (simp add: handle_anomaly_def Let_def split: sum.split option.split jvalue.split)

section \<open>Scoring a reading\<close>

lemma detected_step:
  assumes "model_trained s" "model s = Some m" "accepted p = Some (mid, k, d)"
    and "transform env m (extract_features d) = Inr x"
    and "predict env m x = Inr prediction" "score_samples env m x = Inr score"
  shows "on_message env p s =
           finish (if prediction = - 1
                   then handle_anomaly env mid d score
                          (store_reading k d (s\<lparr>total_readings := total_readings s + 1\<rparr>))
                   else log_normal_operation mid d
                          (store_reading k d (s\<lparr>total_readings := total_readings s + 1\<rparr>)))"
proof -
  let ?s2 = "store_reading k d (s\<lparr>total_readings := total_readings s + 1\<rparr>)"
  have s2: "model_trained ?s2" "model ?s2 = Some m"
    using assms(1,2) by (simp_all add: store_reading_frame)
  have "detect_anomaly env ?s2 (extract_features d) = Inr (prediction = - 1, score)"
    using s2 assms(4-6) by (simp add: detect_anomaly_def)
  then have "score_reading env mid d (extract_features d) ?s2
      = (if prediction = - 1 then handle_anomaly env mid d score ?s2
         else log_normal_operation mid d ?s2)"
    using s2 by (simp add: score_reading_def)
  then show ?thesis
    using assms(1,3) by (simp add: on_message_phases phases_trained_eq)
qed

lemma detected_counts:
  assumes "model_trained s" "model s = Some m" "accepted p = Some (mid, k, d)"
    and "transform env m (extract_features d) = Inr x"
    and "predict env m x = Inr prediction" "score_samples env m x = Inr score"
  shows "anomalies_detected (on_message env p s)
           = anomalies_detected s + (if prediction = - 1 then 1 else 0)"
proof -
  let ?s2 = "store_reading k d (s\<lparr>total_readings := total_readings s + 1\<rparr>)"
  have "anomalies_detected (snd (log_normal_operation mid d ?s2)) = anomalies_detected ?s2"
    by (simp add: log_normal_operation_def split: sum.split)
  then show ?thesis
    using detected_step [OF assms]
    by (simp add: finish_fields handle_anomaly_frame store_reading_frame)
qed


lemma anomaly_stored_step:
  assumes "model_trained s" "model s = Some m" "accepted p = Some (mid, k, d)"
    and "transform env m (extract_features d) = Inr x"
    and "predict env m x = Inr (- 1)" "score_samples env m x = Inr score"
    and "build_alert env (anomalies_detected s + 1) mid d score = Inr a"
  shows "alert_history (on_message env p s) = alert_history s @ [a]
     \<and> anomalies_detected (on_message env p s) = anomalies_detected s + 1
     \<and> alerts_of (on_message env p s) k = alerts_of s k @ [a]
     \<and> published (on_message env p s)
         = published s @ (if mqtt_publish env a = None then [a] else [])"
proof -
  let ?s2 = "store_reading k d (s\<lparr>total_readings := total_readings s + 1\<rparr>)"
  have b: "build_alert env (anomalies_detected ?s2 + 1) mid d score = Inr a"
    using assms(7) by (simp add: store_reading_frame)
  have k: "dict_key mid = Inr k" using accepted_SomeD [OF assms(3)] by simp
  obtain ms where ms: "machine_data ?s2 k = Some ms"
    using store_reading_known [of k d "s\<lparr>total_readings := total_readings s + 1\<rparr>"] by blast
  have al: "alerts ms = alerts_of s k"
    using ms store_reading_alerts [of k d "s\<lparr>total_readings := total_readings s + 1\<rparr>" k]
    by (simp add: alerts_of_def)
  note h = handle_anomaly_stored [OF b k ms]
  have "alerts_of (snd (handle_anomaly env mid d score ?s2)) k = alerts_of s k @ [a]"
    using h al by (simp add: alerts_of_def)
  then show ?thesis
    using detected_step [OF assms(1-6)] h handle_anomaly_frame [of env mid d score ?s2]
    by (simp add: finish_fields store_reading_frame alerts_of_def)
qed

section \<open>The reading that crosses the threshold\<close>

lemma score_reading_detected:
  assumes "model_trained s" "model s = Some m"
    and "transform env m f = Inr x"
    and "predict env m x = Inr prediction" "score_samples env m x = Inr score"
  shows "score_reading env mid d f s =
           (if prediction = - 1 then handle_anomaly env mid d score s
            else log_normal_operation mid d s)"
  using assms by (simp add: score_reading_def detect_anomaly_def)

lemma collect_training_threshold:
  assumes "\<not> model_trained s" "min_training_samples \<le> length (training_data s) + 1"
    and "fit env (training_data s @ [f]) = Inr m"
  shows "collect_training env f s =
     (case pickle_dump env m of Some e \<Rightarrow> Inl e | None \<Rightarrow> Inr (),
      s\<lparr>training_data := training_data s @ [f], model := Some m, model_trained := True,
        stdout := stdout s @ [TrainingBanner, ModelTrained (length (training_data s) + 1)]
                    @ (case pickle_dump env m of Some e \<Rightarrow> [] | None \<Rightarrow> [ModelSaved])\<rparr>)"
  using assms
  by (simp add: collect_training_def train_model_def Let_def split: option.split)

lemma threshold_saved_step:
  assumes "\<not> model_trained s" "min_training_samples \<le> length (training_data s) + 1"
    and "accepted p = Some (mid, k, d)"
    and "fit env (training_data s @ [extract_features d]) = Inr m"
    and "pickle_dump env m = None"
  shows "on_message env p s =
     finish (score_reading env mid d (extract_features d)
       ((store_reading k d (s\<lparr>total_readings := total_readings s + 1\<rparr>))
          \<lparr>training_data := training_data s @ [extract_features d],
           model := Some m, model_trained := True,
           stdout := stdout s @ [TrainingBanner, ModelTrained (length (training_data s) + 1),
                                 ModelSaved]\<rparr>))"
proof -
  let ?s2 = "store_reading k d (s\<lparr>total_readings := total_readings s + 1\<rparr>)"
  have s2: "\<not> model_trained ?s2" "training_data ?s2 = training_data s" "stdout ?s2 = stdout s"
    using assms(1) by (simp_all add: store_reading_frame)
  have "min_training_samples \<le> length (training_data ?s2) + 1"
    "fit env (training_data ?s2 @ [extract_features d]) = Inr m"
    using assms(2,4) s2 by simp_all
  from collect_training_threshold [OF s2(1) this]
  have c: "collect_training env (extract_features d) ?s2 =
     (Inr (), ?s2\<lparr>training_data := training_data s @ [extract_features d],
        model := Some m, model_trained := True,
        stdout := stdout s @ [TrainingBanner, ModelTrained (length (training_data s) + 1),
                              ModelSaved]\<rparr>)"
    using assms(5) s2 by simp
  show ?thesis
    unfolding on_message_phases [OF assms(3)] phases_def c by simp
qed

lemma threshold_unsaved_step:
  assumes "\<not> model_trained s" "min_training_samples \<le> length (training_data s) + 1"
    and "accepted p = Some (mid, k, d)"
    and "fit env (training_data s @ [extract_features d]) = Inr m"
    and "pickle_dump env m = Some e"
  shows "on_message env p s =
       (store_reading k d (s\<lparr>total_readings := total_readings s + 1\<rparr>))
          \<lparr>training_data := training_data s @ [extract_features d],
           model := Some m, model_trained := True,
           stdout := stdout s @ [TrainingBanner, ModelTrained (length (training_data s) + 1),
                                 ErrorProcessing e]\<rparr>"
proof -
  let ?s2 = "store_reading k d (s\<lparr>total_readings := total_readings s + 1\<rparr>)"
  have s2: "\<not> model_trained ?s2" "training_data ?s2 = training_data s" "stdout ?s2 = stdout s"
    using assms(1) by (simp_all add: store_reading_frame)
  have "min_training_samples \<le> length (training_data ?s2) + 1"
    "fit env (training_data ?s2 @ [extract_features d]) = Inr m"
    using assms(2,4) s2 by simp_all
  from collect_training_threshold [OF s2(1) this]
  have c: "collect_training env (extract_features d) ?s2 =
     (Inl e, ?s2\<lparr>training_data := training_data s @ [extract_features d],
        model := Some m, model_trained := True,
        stdout := stdout s @ [TrainingBanner, ModelTrained (length (training_data s) + 1)]\<rparr>)"
    using assms(5) s2 by simp
  show ?thesis
    unfolding on_message_phases [OF assms(3)] phases_def c by (simp add: finish_def)
qed

lemma format_04d_1: "format_04d 1 = ''0001''"
  by (simp add: format_04d_def dec.simps digit_char_def numeral_3_eq_3)

text \<open>
  Claim C8. The reading that brings the training set to 30 samples arrives, fitting
  succeeds and writing the model file raises. Then \<open>on_message\<close> prints the error after
  the training lines and returns with \<open>model_trained\<close> true and the fitted pair in
  \<open>model\<close>; both stay so for every later message, and every later reading is scored by
  that pair: \<open>anomalies_detected\<close> goes up exactly when it predicts -1.
\<close>

theorem model_usable_after_failed_save:
  assumes "\<not> model_trained s" "min_training_samples \<le> length (training_data s) + 1"
    and "accepted p = Some (mid, k, d)"
    and "fit env (training_data s @ [extract_features d]) = Inr m"
    and "pickle_dump env m = Some e"
  shows "model_trained (on_message env p s) \<and> model (on_message env p s) = Some m
     \<and> stdout (on_message env p s)
         = stdout s @ [TrainingBanner, ModelTrained (length (training_data s) + 1),
                       ErrorProcessing e]
     \<and> model_trained (run env later (on_message env p s))
     \<and> model (run env later (on_message env p s)) = Some m
     \<and> (\<forall>p2 mid2 k2 d2 x2 prediction score2.
           accepted p2 = Some (mid2, k2, d2)
           \<and> transform env m (extract_features d2) = Inr x2
           \<and> predict env m x2 = Inr prediction \<and> score_samples env m x2 = Inr score2
           \<longrightarrow> anomalies_detected (on_message env p2 (run env later (on_message env p s)))
                 = anomalies_detected (run env later (on_message env p s))
                   + (if prediction = - 1 then 1 else 0))"
proof -
  let ?s' = "on_message env p s"
  note eq = threshold_unsaved_step [OF assms]
  have t: "model_trained ?s'" "model ?s' = Some m"
    "stdout ?s' = stdout s @ [TrainingBanner, ModelTrained (length (training_data s) + 1),
                       ErrorProcessing e]"
    by (simp_all add: eq)
  have l: "model_trained (run env later ?s')" "model (run env later ?s') = Some m"
    using trained_run [OF t(1), of env later] t(2) by simp_all
  have sc: "anomalies_detected (on_message env p2 (run env later ?s'))
      = anomalies_detected (run env later ?s') + (if prediction = - 1 then 1 else 0)"
    if "accepted p2 = Some (mid2, k2, d2) \<and> transform env m (extract_features d2) = Inr x2
        \<and> predict env m x2 = Inr prediction \<and> score_samples env m x2 = Inr score2"
    for p2 mid2 k2 d2 x2 prediction score2
    using that detected_counts [OF l, of p2 mid2 k2 d2 env x2 prediction score2] by blast
  show ?thesis
  proof (intro conjI allI impI)
    fix p2 mid2 k2 d2 x2 prediction score2
    assume "accepted p2 = Some (mid2, k2, d2) \<and> transform env m (extract_features d2) = Inr x2
        \<and> predict env m x2 = Inr prediction \<and> score_samples env m x2 = Inr score2"
    then show "anomalies_detected (on_message env p2 (run env later ?s'))
      = anomalies_detected (run env later ?s') + (if prediction = - 1 then 1 else 0)"
      by (rule sc)
  qed (rule t l)+
qed

theorem model_usable_after_failed_save_witness:
  "\<not> model_trained (collecting 29 (JNum 65))
   \<and> min_training_samples \<le> length (training_data (collecting 29 (JNum 65))) + 1
   \<and> accepted (Inr (JObj (sim_reading ''M'' (JNum 65))))
       = Some (JStr ''M'', JStr ''M'', sim_reading ''M'' (JNum 65))
   \<and> fit readonly_env (training_data (collecting 29 (JNum 65))
         @ [extract_features (sim_reading ''M'' (JNum 65))]) = Inr ()
   \<and> pickle_dump readonly_env () = Some OSError
   \<and> run readonly_env (replicate 29 (Inr (JObj (sim_reading ''M'' (JNum 65))))) init
       = collecting 29 (JNum 65)
   \<and> model_trained (on_message readonly_env (Inr (JObj (sim_reading ''M'' (JNum 65))))
        (collecting 29 (JNum 65)))
   \<and> stdout (on_message readonly_env (Inr (JObj (sim_reading ''M'' (JNum 65))))
        (collecting 29 (JNum 65)))
       = [TrainingBanner, ModelTrained 30, ErrorProcessing OSError]
   \<and> anomalies_detected (on_message readonly_env (Inr (JObj (sim_reading ''M'' (JNum 120))))
        (on_message readonly_env (Inr (JObj (sim_reading ''M'' (JNum 65))))
           (collecting 29 (JNum 65)))) = 1"
proof -
  let ?s = "collecting 29 (JNum 65)"
  let ?p = "Inr (JObj (sim_reading ''M'' (JNum 65))) :: error + jvalue"
  let ?q = "Inr (JObj (sim_reading ''M'' (JNum 120))) :: error + jvalue"
  have h: "\<not> model_trained ?s" "min_training_samples \<le> length (training_data ?s) + 1"
    by (simp_all add: collecting_def min_training_samples_def)
  have a: "accepted ?p = Some (JStr ''M'', JStr ''M'', sim_reading ''M'' (JNum 65))"
    "accepted ?q = Some (JStr ''M'', JStr ''M'', sim_reading ''M'' (JNum 120))"
    by (simp_all add: accepted_def subscript_def sim_reading_def)
  have f: "fit readonly_env (training_data ?s @ [extract_features (sim_reading ''M'' (JNum 65))])
      = Inr ()"
    by (simp add: readonly_env_def demo_env_def collecting_def extract_features_def dict_get_def
        sim_reading_def list_all_replicate)
  have w: "pickle_dump readonly_env () = Some OSError"
    by (simp add: readonly_env_def)
  have d: "transform readonly_env () (extract_features (sim_reading ''M'' (JNum 120)))
      = Inr [JNum 120, JNum 2, JNum 10, JNum 6, JNum 1500]"
    "predict readonly_env () [JNum 120, JNum 2, JNum 10, JNum 6, JNum 1500] = Inr (- 1)"
    "score_samples readonly_env () [JNum 120, JNum 2, JNum 10, JNum 6, JNum 1500] = Inr (- 0.6)"
    by (simp_all add: readonly_env_def demo_env_def demo_predict_def extract_features_def
        dict_get_def sim_reading_def)
  have z: "anomalies_detected (on_message readonly_env ?p ?s) = 0"
    unfolding threshold_unsaved_step [OF h a(1) f w]
    by (simp add: store_reading_frame collecting_def)
  note r = model_usable_after_failed_save [OF h a(1) f w, of "[]"]
  have "anomalies_detected (on_message readonly_env ?q (run readonly_env [] (on_message readonly_env ?p ?s)))
      = anomalies_detected (run readonly_env [] (on_message readonly_env ?p ?s))
        + (if (- 1 :: int) = - 1 then 1 else 0)"
    using r a(2) d by blast
  then have n: "anomalies_detected (on_message readonly_env ?q (on_message readonly_env ?p ?s)) = 1"
    using z by simp
  show ?thesis
    using h a(1) f w r n collecting_run [of 29 readonly_env "JNum 65"]
    by (simp add: collecting_def)
qed

text \<open>
  Claim C9. A monitor started from nothing holds 29 training samples and receives a
  reading; fitting succeeds and the model file is written, so \<open>train_model\<close> returns.
  Then the same call scores that very reading with the new model: it ends in
  \<open>handle_anomaly\<close> when the prediction is -1 and in \<open>log_normal_operation\<close> otherwise,
  and when the alert can be built it is the first of the history, numbered 0001.
\<close>

theorem threshold_reading_is_scored:
  assumes "length (training_data (run env msgs init)) = 29"
    and "accepted p = Some (mid, k, d)"
    and "fit env (training_data (run env msgs init) @ [extract_features d]) = Inr m"
    and "pickle_dump env m = None"
    and "transform env m (extract_features d) = Inr x"
    and "predict env m x = Inr prediction" "score_samples env m x = Inr score"
  shows "\<not> model_trained (run env msgs init)
     \<and> alert_history (run env msgs init) = []
     \<and> model_trained (on_message env p (run env msgs init))
     \<and> model (on_message env p (run env msgs init)) = Some m
     \<and> length (training_data (on_message env p (run env msgs init))) = 30
     \<and> on_message env p (run env msgs init) =
         finish ((if prediction = - 1 then handle_anomaly env mid d score
                  else log_normal_operation mid d)
           ((store_reading k d ((run env msgs init)
                \<lparr>total_readings := total_readings (run env msgs init) + 1\<rparr>))
              \<lparr>training_data := training_data (run env msgs init) @ [extract_features d],
               model := Some m, model_trained := True,
               stdout := stdout (run env msgs init)
                  @ [TrainingBanner, ModelTrained 30, ModelSaved]\<rparr>))
     \<and> anomalies_detected (on_message env p (run env msgs init))
         = (if prediction = - 1 then 1 else 0)
     \<and> (prediction \<noteq> - 1 \<longrightarrow> alert_history (on_message env p (run env msgs init)) = [])
     \<and> (\<forall>a. prediction = - 1 \<and> build_alert env 1 mid d score = Inr a
           \<longrightarrow> alert_history (on_message env p (run env msgs init)) = [a]
               \<and> alert_id a = ''ALERT_0001'')"
proof -
  let ?s = "run env msgs init"
  let ?s3 = "(store_reading k d (?s\<lparr>total_readings := total_readings ?s + 1\<rparr>))
              \<lparr>training_data := training_data ?s @ [extract_features d],
               model := Some m, model_trained := True,
               stdout := stdout ?s @ [TrainingBanner, ModelTrained 30, ModelSaved]\<rparr>"
  have u: "\<not> model_trained ?s"
    using enough_run [of init env msgs] assms(1) by (simp add: init_def min_training_samples_def)
  then have e: "alert_history ?s = []" "anomalies_detected ?s = 0"
    using gated_run [OF gated_init, of env msgs] by (simp_all add: gated_def)
  have th: "min_training_samples \<le> length (training_data ?s) + 1"
    using assms(1) by (simp add: min_training_samples_def)
  have s3: "model_trained ?s3" "model ?s3 = Some m" "alert_history ?s3 = []"
    "anomalies_detected ?s3 = 0" "dict_key mid = Inr k" "machine_data ?s3 k \<noteq> None"
    using e accepted_SomeD [OF assms(2)]
      store_reading_known [of k d "?s\<lparr>total_readings := total_readings ?s + 1\<rparr>"]
    by (simp_all add: store_reading_frame)
  have eq: "on_message env p ?s = finish ((if prediction = - 1 then handle_anomaly env mid d score
                  else log_normal_operation mid d) ?s3)"
    using threshold_saved_step [OF u th assms(2,3,4)]
      score_reading_detected [OF s3(1,2) assms(5,6,7), of mid d] assms(1)
    by simp
  have tr: "model_trained (on_message env p ?s)" "model (on_message env p ?s) = Some m"
    "length (training_data (on_message env p ?s)) = 30"
    using assms(1) score_reading_frame [of env mid d "extract_features d" ?s3]
      threshold_saved_step [OF u th assms(2,3,4)]
    by (simp_all add: finish_fields)
  have ln: "alert_history (snd (log_normal_operation mid d ?s3)) = []
      \<and> anomalies_detected (snd (log_normal_operation mid d ?s3)) = 0"
    using s3(3,4) by (simp add: log_normal_operation_def split: sum.split)
  have an: "anomalies_detected (on_message env p ?s) = (if prediction = - 1 then 1 else 0)"
    using ln handle_anomaly_frame [of env mid d score ?s3] s3(4)
    by (simp add: eq finish_fields)
  have no: "prediction \<noteq> - 1 \<longrightarrow> alert_history (on_message env p ?s) = []"
    using ln by (simp add: eq finish_fields)
  have al: "alert_history (on_message env p ?s) = [a] \<and> alert_id a = ''ALERT_0001''"
    if "prediction = - 1 \<and> build_alert env 1 mid d score = Inr a" for a
  proof -
    have b: "build_alert env (anomalies_detected ?s3 + 1) mid d score = Inr a"
      using that s3(4) by simp
    obtain ms where ms: "machine_data ?s3 k = Some ms" using s3(6) by blast
    have "alert_history (snd (handle_anomaly env mid d score ?s3)) = [a]"
      using handle_anomaly_stored [OF b s3(5) ms] s3(3) by simp
    then show ?thesis
      using that build_alert_id [of env 1 mid d score a] format_04d_1
      by (simp add: eq finish_fields)
  qed
  show ?thesis
    using u e(1) tr an no al
    by (intro conjI allI impI) (simp_all only: eq [symmetric] assms(1), simp_all)
qed

theorem threshold_reading_is_scored_witness:
  "length (training_data (run demo_env (replicate 29 (Inr (JObj (sim_reading ''M'' (JNum 65))))) init))
     = 29
   \<and> accepted (Inr (JObj (sim_reading ''M'' (JNum 120))))
       = Some (JStr ''M'', JStr ''M'', sim_reading ''M'' (JNum 120))
   \<and> fit demo_env (training_data
         (run demo_env (replicate 29 (Inr (JObj (sim_reading ''M'' (JNum 65))))) init)
         @ [extract_features (sim_reading ''M'' (JNum 120))]) = Inr ()
   \<and> pickle_dump demo_env () = None
   \<and> transform demo_env () (extract_features (sim_reading ''M'' (JNum 120)))
       = Inr [JNum 120, JNum 2, JNum 10, JNum 6, JNum 1500]
   \<and> predict demo_env () [JNum 120, JNum 2, JNum 10, JNum 6, JNum 1500] = Inr (- 1)
   \<and> score_samples demo_env () [JNum 120, JNum 2, JNum 10, JNum 6, JNum 1500] = Inr (- 0.6)
   \<and> model_trained (on_message demo_env (Inr (JObj (sim_reading ''M'' (JNum 120))))
        (run demo_env (replicate 29 (Inr (JObj (sim_reading ''M'' (JNum 65))))) init))
   \<and> anomalies_detected (on_message demo_env (Inr (JObj (sim_reading ''M'' (JNum 120))))
        (run demo_env (replicate 29 (Inr (JObj (sim_reading ''M'' (JNum 65))))) init)) = 1
   \<and> map alert_id (alert_history (on_message demo_env (Inr (JObj (sim_reading ''M'' (JNum 120))))
        (run demo_env (replicate 29 (Inr (JObj (sim_reading ''M'' (JNum 65))))) init)))
       = [''ALERT_0001'']"
proof -
  let ?s = "run demo_env (replicate 29 (Inr (JObj (sim_reading ''M'' (JNum 65))))) init"
  let ?d = "sim_reading ''M'' (JNum 120)"
  have s: "?s = collecting 29 (JNum 65)"
    by (rule collecting_run) simp
  have n: "length (training_data ?s) = 29"
    by (simp add: s collecting_def)
  have a: "accepted (Inr (JObj ?d)) = Some (JStr ''M'', JStr ''M'', ?d)"
    by (simp add: accepted_def subscript_def sim_reading_def)
  have f: "fit demo_env (training_data ?s @ [extract_features ?d]) = Inr ()"
    unfolding s
    by (simp add: demo_env_def collecting_def extract_features_def dict_get_def
        sim_reading_def list_all_replicate)
  have w: "pickle_dump demo_env () = None"
    by (simp add: demo_env_def)
  have d: "transform demo_env () (extract_features ?d)
      = Inr [JNum 120, JNum 2, JNum 10, JNum 6, JNum 1500]"
    "predict demo_env () [JNum 120, JNum 2, JNum 10, JNum 6, JNum 1500] = Inr (- 1)"
    "score_samples demo_env () [JNum 120, JNum 2, JNum 10, JNum 6, JNum 1500] = Inr (- 0.6)"
    by (simp_all add: demo_env_def demo_predict_def extract_features_def
        dict_get_def sim_reading_def)
  have "complete ?d"
    by (simp add: complete_def alert_keys_def sim_reading_def)
  then obtain al where b: "build_alert demo_env 1 (JStr ''M'') ?d (- 0.6) = Inr al"
    using build_alert_complete by blast
  note r = threshold_reading_is_scored [OF n a f w d]
  have h: "alert_history (on_message demo_env (Inr (JObj ?d)) ?s) = [al] \<and> alert_id al = ''ALERT_0001''"
    using r b by blast
  have t: "model_trained (on_message demo_env (Inr (JObj ?d)) ?s)"
    using r by blast
  have c: "anomalies_detected (on_message demo_env (Inr (JObj ?d)) ?s)
      = (if (- 1 :: int) = - 1 then 1 else 0)"
    using r by blast
  show ?thesis
    using n a f w d h t c by simp
qed

section \<open>An anomalous reading with a missing key\<close>

lemma detect_anomaly_flagged:
  assumes "detect_anomaly env s f = Inr (True, score)"
  shows "\<exists>m x. model s = Some m \<and> transform env m f = Inr x
           \<and> predict env m x = Inr (- 1) \<and> score_samples env m x = Inr score"
proof (cases "model s")
  case None
  then show ?thesis using assms by (simp add: detect_anomaly_def)
next
  case (Some m)
  show ?thesis
  proof (cases "transform env m f")
    case (Inl e)
    then show ?thesis using assms Some by (simp add: detect_anomaly_def)
  next
    case (Inr x)
    show ?thesis
      using assms Some Inr
      by (cases "predict env m x"; cases "score_samples env m x")
        (simp_all add: detect_anomaly_def)
  qed
qed

lemma flagged_step:
  assumes "accepted p = Some (mid, k, d)"
    and "collect_training env (extract_features d)
           (store_reading k d (s\<lparr>total_readings := total_readings s + 1\<rparr>)) = (Inr (), t)"
    and "model_trained t" "detect_anomaly env t (extract_features d) = Inr (True, score)"
  shows "on_message env p s = finish (handle_anomaly env mid d score t)
     \<and> alert_history t = alert_history s \<and> anomalies_detected t = anomalies_detected s
     \<and> published t = published s \<and> (\<forall>k'. alerts_of t k' = alerts_of s k')
     \<and> machine_data t k \<noteq> None"
proof -
  let ?s1 = "s\<lparr>total_readings := total_readings s + 1\<rparr>"
  have fr: "machine_data t = machine_data (store_reading k d ?s1)"
    "alert_history t = alert_history s" "anomalies_detected t = anomalies_detected s"
    "published t = published s"
    using collect_training_frame [of env "extract_features d" "store_reading k d ?s1"] assms(2)
    by (simp_all add: store_reading_frame)
  have al: "alerts_of t k' = alerts_of s k'" for k'
    using fr(1) store_reading_alerts [of k d ?s1 k'] by (simp add: alerts_of_def)
  have kn: "machine_data t k \<noteq> None"
    using fr(1) store_reading_known [of k d ?s1] by simp
  have "score_reading env mid d (extract_features d) t = handle_anomaly env mid d score t"
    using assms(3,4) by (simp add: score_reading_def)
  then have "on_message env p s = finish (handle_anomaly env mid d score t)"
    using assms(1,2) by (simp add: on_message_phases phases_def)
  then show ?thesis using fr al kn by blast
qed

text \<open>
  Claim C10. A reading (a dict with a hashable machine id) is classified anomalous:
  the call gets past the training step of lines 75 to 79 with the model trained, on
  an already trained monitor or on the reading that crosses the threshold, and
  \<open>detect_anomaly\<close> flags it. It lacks one of the keys timestamp, temperature,
  vibration, current, pressure, rpm. Then \<open>handle_anomaly\<close> adds one to
  \<open>anomalies_detected\<close> and raises KeyError for a missing key while building the
  alert; no alert is added to the history, to any machine's list or to what was
  published; \<open>on_message\<close> prints the error and returns with the model still trained;
  and the next alert that is built carries the number after the one that was skipped.
  The state \<open>t\<close> is the one the training step leaves: by \<open>collect_training_trained\<close>
  the stored state itself on a trained monitor, by \<open>collect_training_threshold\<close> the
  freshly trained state on the reading that crosses the threshold.
\<close>

theorem flagged_reading_with_missing_key:
  assumes "accepted (Inr (JObj d)) = Some (mid, k, d)"
    and "collect_training env (extract_features d)
           (store_reading k d (s\<lparr>total_readings := total_readings s + 1\<rparr>)) = (Inr (), t)"
    and "model_trained t" "detect_anomaly env t (extract_features d) = Inr (True, score)"
    and "key \<in> set alert_keys" "map_of d key = None"
  shows "\<exists>missing. missing \<in> set alert_keys \<and> map_of d missing = None
     \<and> handle_anomaly env mid d score t
         = (Inl (KeyError (JStr missing)), t\<lparr>anomalies_detected := anomalies_detected s + 1\<rparr>)
     \<and> on_message env (Inr (JObj d)) s
         = t\<lparr>anomalies_detected := anomalies_detected s + 1,
             stdout := stdout t @ [ErrorProcessing (KeyError (JStr missing))]\<rparr>
     \<and> anomalies_detected (on_message env (Inr (JObj d)) s) = anomalies_detected s + 1
     \<and> alert_history (on_message env (Inr (JObj d)) s) = alert_history s
     \<and> published (on_message env (Inr (JObj d)) s) = published s
     \<and> (\<forall>k'. alerts_of (on_message env (Inr (JObj d)) s) k' = alerts_of s k')
     \<and> model_trained (on_message env (Inr (JObj d)) s)
     \<and> (\<forall>p2 mid2 k2 d2 score2 a.
           accepted p2 = Some (mid2, k2, d2)
           \<and> detect_anomaly env (on_message env (Inr (JObj d)) s) (extract_features d2)
               = Inr (True, score2)
           \<and> build_alert env (anomalies_detected s + 2) mid2 d2 score2 = Inr a
           \<longrightarrow> alert_history (on_message env p2 (on_message env (Inr (JObj d)) s))
                 = alert_history s @ [a]
               \<and> alert_id a = ''ALERT_'' @ format_04d (anomalies_detected s + 2)
               \<and> anomalies_detected (on_message env p2 (on_message env (Inr (JObj d)) s))
                 = anomalies_detected s + 2)"
proof -
  let ?s' = "on_message env (Inr (JObj d)) s"
  note st = flagged_step [OF assms(1-4)]
  have fr: "alert_history t = alert_history s" "anomalies_detected t = anomalies_detected s"
    "published t = published s" "\<And>k'. alerts_of t k' = alerts_of s k'"
    using st by simp_all
  obtain missing where mi: "missing \<in> set alert_keys" "map_of d missing = None"
    "build_alert env (anomalies_detected t + 1) mid d score = Inl (KeyError (JStr missing))"
    using build_alert_missing [OF assms(5,6)] by blast
  have h: "handle_anomaly env mid d score t
         = (Inl (KeyError (JStr missing)), t\<lparr>anomalies_detected := anomalies_detected s + 1\<rparr>)"
    using handle_anomaly_raised [OF mi(3)] fr by simp
  have eq: "?s' = t\<lparr>anomalies_detected := anomalies_detected s + 1,
             stdout := stdout t @ [ErrorProcessing (KeyError (JStr missing))]\<rparr>"
    using st h by (simp add: finish_def)
  have f: "anomalies_detected ?s' = anomalies_detected s + 1" "alert_history ?s' = alert_history s"
    "published ?s' = published s" "model_trained ?s'"
    using fr assms(3) by (simp_all add: eq)
  have al: "alerts_of ?s' k' = alerts_of s k'" for k'
    using fr(4) [of k'] by (simp add: eq alerts_of_def)
  have nx: "alert_history (on_message env p2 ?s') = alert_history s @ [a]
       \<and> alert_id a = ''ALERT_'' @ format_04d (anomalies_detected s + 2)
       \<and> anomalies_detected (on_message env p2 ?s') = anomalies_detected s + 2"
    if asm: "accepted p2 = Some (mid2, k2, d2)
        \<and> detect_anomaly env ?s' (extract_features d2) = Inr (True, score2)
        \<and> build_alert env (anomalies_detected s + 2) mid2 d2 score2 = Inr a"
    for p2 mid2 k2 d2 score2 a
  proof -
    have "\<exists>m2 x2. model ?s' = Some m2 \<and> transform env m2 (extract_features d2) = Inr x2
        \<and> predict env m2 x2 = Inr (- 1) \<and> score_samples env m2 x2 = Inr score2"
      using detect_anomaly_flagged [of env ?s' "extract_features d2" score2] asm by blast
    then obtain m2 x2 where d2: "model ?s' = Some m2"
      "transform env m2 (extract_features d2) = Inr x2"
      "predict env m2 x2 = Inr (- 1)" "score_samples env m2 x2 = Inr score2"
      by blast
    have b: "build_alert env (anomalies_detected ?s' + 1) mid2 d2 score2 = Inr a"
      using asm f(1) by simp
    have a2: "accepted p2 = Some (mid2, k2, d2)" using asm by simp
    have id: "alert_id a = ''ALERT_'' @ format_04d (anomalies_detected s + 2)"
      using build_alert_id [of env "anomalies_detected s + 2" mid2 d2 score2 a] asm by simp
    show ?thesis
      using anomaly_stored_step [OF f(4) d2(1) a2 d2(2-4) b] id f(1,2)
      by simp
  qed
  show ?thesis
    using mi(1,2) h eq f al nx by blast
qed

lemma untimed_facts:
  "accepted (Inr (JObj untimed_reading)) = Some (JStr ''M'', JStr ''M'', untimed_reading)"
  "extract_features untimed_reading = [JNum 120, JNum 8, JNum 20, JNum 6, JNum 1200]"
  "''timestamp'' \<in> set alert_keys" "map_of untimed_reading ''timestamp'' = None"
  by (simp_all add: accepted_def subscript_def untimed_reading_def extract_features_def
      dict_get_def alert_keys_def)

lemma demo_flags:
  "model s = Some () \<Longrightarrow>
     detect_anomaly demo_env s [JNum 120, JNum 8, JNum 20, JNum 6, JNum 1200] = Inr (True, - 0.6)"
  by (simp add: detect_anomaly_def demo_env_def demo_predict_def)

theorem flagged_reading_with_missing_key_witness:
  "accepted (Inr (JObj untimed_reading)) = Some (JStr ''M'', JStr ''M'', untimed_reading)
   \<and> ''timestamp'' \<in> set alert_keys \<and> map_of untimed_reading ''timestamp'' = None
   \<and> model_trained (run demo_env (replicate 30 (Inr (JObj (sim_reading ''M'' (JNum 65))))) init)
   \<and> anomalies_detected (on_message demo_env (Inr (JObj untimed_reading))
        (run demo_env (replicate 30 (Inr (JObj (sim_reading ''M'' (JNum 65))))) init)) = 1
   \<and> alert_history (on_message demo_env (Inr (JObj untimed_reading))
        (run demo_env (replicate 30 (Inr (JObj (sim_reading ''M'' (JNum 65))))) init)) = []
   \<and> published (on_message demo_env (Inr (JObj untimed_reading))
        (run demo_env (replicate 30 (Inr (JObj (sim_reading ''M'' (JNum 65))))) init)) = []
   \<and> \<not> model_trained (run demo_env (replicate 29 (Inr (JObj (sim_reading ''M'' (JNum 65))))) init)
   \<and> model_trained (on_message demo_env (Inr (JObj untimed_reading))
        (run demo_env (replicate 29 (Inr (JObj (sim_reading ''M'' (JNum 65))))) init))
   \<and> anomalies_detected (on_message demo_env (Inr (JObj untimed_reading))
        (run demo_env (replicate 29 (Inr (JObj (sim_reading ''M'' (JNum 65))))) init)) = 1
   \<and> alert_history (on_message demo_env (Inr (JObj untimed_reading))
        (run demo_env (replicate 29 (Inr (JObj (sim_reading ''M'' (JNum 65))))) init)) = []"
proof -
  let ?S = "run demo_env (replicate 30 (Inr (JObj (sim_reading ''M'' (JNum 65))))) init"
  let ?U = "run demo_env (replicate 29 (Inr (JObj (sim_reading ''M'' (JNum 65))))) init"
  let ?f = "extract_features untimed_reading"
  let ?t = "store_reading (JStr ''M'') untimed_reading (?S\<lparr>total_readings := total_readings ?S + 1\<rparr>)"
  let ?u2 = "store_reading (JStr ''M'') untimed_reading (?U\<lparr>total_readings := total_readings ?U + 1\<rparr>)"
  let ?T = "?u2\<lparr>training_data := training_data ?u2 @ [?f], model := Some (), model_trained := True,
        stdout := stdout ?u2 @ [TrainingBanner, ModelTrained (length (training_data ?u2) + 1)]
                    @ [ModelSaved]\<rparr>"
  have s: "model_trained ?S" "model ?S = Some ()" "anomalies_detected ?S = 0"
    "alert_history ?S = []" "published ?S = []"
    by (simp_all add: thirty_cool collecting_def)
  have u: "?U = collecting 29 (JNum 65)"
    by (rule collecting_run) simp
  have us: "\<not> model_trained ?U" "anomalies_detected ?U = 0" "alert_history ?U = []"
    "length (training_data ?U) = 29"
    "training_data ?U = replicate 29 [JNum 65, JNum 2, JNum 10, JNum 6, JNum 1500]"
    unfolding u by (simp_all add: collecting_def)
  have t: "model_trained ?t" "model ?t = Some ()"
    using s(1,2) by (simp_all add: store_reading_frame)
  have c1: "collect_training demo_env ?f ?t = (Inr (), ?t)"
    using t(1) by (rule collect_training_trained)
  have d1: "detect_anomaly demo_env ?t ?f = Inr (True, - 0.6)"
    unfolding untimed_facts(2) using t(2) by (rule demo_flags)
  have td: "training_data ?u2 = replicate 29 [JNum 65, JNum 2, JNum 10, JNum 6, JNum 1500]"
    by (simp add: store_reading_frame us(5))
  have u2a: "\<not> model_trained ?u2"
    using us(1) by (simp add: store_reading_frame)
  have u2b: "min_training_samples \<le> length (training_data ?u2) + 1"
    unfolding td by (simp add: min_training_samples_def)
  have u2c: "fit demo_env (training_data ?u2 @ [?f]) = Inr ()"
    unfolding td untimed_facts(2) by (simp add: demo_env_def list_all_replicate)
  note u2 = u2a u2b u2c
  have c2: "collect_training demo_env ?f ?u2 = (Inr (), ?T)"
    unfolding collect_training_threshold [OF u2] by (simp add: demo_env_def)
  have T: "model_trained ?T" "model ?T = Some ()" by simp_all
  have d2: "detect_anomaly demo_env ?T ?f = Inr (True, - 0.6)"
    by (simp add: untimed_facts(2) demo_flags)
  note a = flagged_reading_with_missing_key [OF untimed_facts(1) c1 t(1) d1 untimed_facts(3,4)]
  note b = flagged_reading_with_missing_key [OF untimed_facts(1) c2 T(1) d2 untimed_facts(3,4)]
  have ra: "anomalies_detected (on_message demo_env (Inr (JObj untimed_reading)) ?S) = 1"
    "alert_history (on_message demo_env (Inr (JObj untimed_reading)) ?S) = []"
    "published (on_message demo_env (Inr (JObj untimed_reading)) ?S) = []"
    using a s(3,4,5) by auto
  have rb: "model_trained (on_message demo_env (Inr (JObj untimed_reading)) ?U)"
    "anomalies_detected (on_message demo_env (Inr (JObj untimed_reading)) ?U) = 1"
    "alert_history (on_message demo_env (Inr (JObj untimed_reading)) ?U) = []"
    using b us(2,3) by auto
  show ?thesis
    using untimed_facts(1,3,4) s(1) us(1) ra rb by simp
qed

section \<open>Alert ids\<close>






















section \<open>Severity classification\<close>

text \<open>
  Claim C5. The severity is a function of the score alone, defined for every score:
  it is CRITICAL exactly when the score is below -0.5, WARNING exactly when the score
  is at least -0.5 and below -0.3, and INFO in every other case; the scores -0.6, -0.4
  and -0.1 give CRITICAL, WARNING and INFO.
\<close>

theorem calculate_severity_thresholds:
  "(calculate_severity s = ''CRITICAL'' \<longleftrightarrow> s < - 0.5)
   \<and> (calculate_severity s = ''WARNING'' \<longleftrightarrow> - 0.5 \<le> s \<and> s < - 0.3)
   \<and> (calculate_severity s = ''INFO'' \<longleftrightarrow> \<not> s < - 0.3)
   \<and> calculate_severity s \<in> {''CRITICAL'', ''WARNING'', ''INFO''}
   \<and> calculate_severity (- 0.6) = ''CRITICAL''
   \<and> calculate_severity (- 0.4) = ''WARNING''
   \<and> calculate_severity (- 0.1) = ''INFO''"
  by (simp add: calculate_severity_def)

end
